theory Spec2Isabelle
  imports Main
begin

section \<open>Engine types used by UGameData\<close>

text \<open>
  \<open>UGameData\<close> (GameData.cpp) is written against the Unreal Engine containers and
  strings. The parts of their behaviour that the functions below depend on are written
  out here.

  \<^item> \<open>FString\<close>: a sequence of characters. The comparison \<open>==\<close> of two \<open>FString\<close>s, and
    of an \<open>FString\<close> with a literal, is the engine's \<open>Stricmp\<close>: it ignores the case of
    the ASCII letters (UnrealString.h documents the operator as case insensitive).
    \<open>ToLower\<close> is its table of lower-case ASCII letters; every other character is left
    as it is.
  \<^item> \<open>FName\<close>: an interned name. Two \<open>FName\<close>s are equal when their comparison entries
    are, and these ignore letter case as well (the engine documents names as
    case-insensitive). A name is represented by its comparison key, the string in lower
    case.
  \<^item> \<open>TArray\<close>: a growable array, modelled as a list. \<open>operator[]\<close> checks the index
    against \<open>Num()\<close> and stops the program when the check fails; this is the error
    \<open>RangeCheck\<close>. \<open>Max()\<close> is the number of elements the allocation can hold.
  \<^item> \<open>TMap\<close>: \<open>Add(k, v)\<close> stores \<open>v\<close> under \<open>k\<close> and replaces a value already stored
    under \<open>k\<close>; modelled as a map.
  \<^item> Object pointers (\<open>USoundBase*\<close>, \<open>UTexture2D*\<close>, \<open>AActor*\<close>): an address or
    \<open>nullptr\<close> (\<open>None\<close>); pointers are compared by address, and what an object holds
    is read from a store.
\<close>

type_synonym FString = string
type_synonym addr = nat
type_synonym pointer = "addr option"

datatype error = RangeCheck

definition ToLower :: "char \<Rightarrow> char" where
  "ToLower c =
     (case map_of (zip ''ABCDEFGHIJKLMNOPQRSTUVWXYZ'' ''abcdefghijklmnopqrstuvwxyz'') c of
        Some l \<Rightarrow> l
      | None \<Rightarrow> c)"

definition Stricmp_eq :: "FString \<Rightarrow> FString \<Rightarrow> bool" where
  "Stricmp_eq a b = (map ToLower a = map ToLower b)"

datatype fname = NameKey string

definition FName :: "FString \<Rightarrow> fname" where
  "FName s = NameKey (map ToLower s)"

record object_store =
  SoundName :: "addr \<Rightarrow> FString"
  ImageName :: "addr \<Rightarrow> FString"
  Tags :: "addr \<Rightarrow> fname list"

section \<open>Name resolution\<close>

text \<open>
  \<open>GetSoundByName\<close> and \<open>GetImageByName\<close> have the same body: for every requested name,
  in order, the whole pool is scanned, and every non-null asset whose name compares
  equal to the requested one and which the result does not contain yet is appended.
  \<open>ScanPool\<close> is the inner loop, \<open>ScanNames\<close> the outer one; the accumulator is the
  array \<open>sounds\<close> (\<open>foundImages\<close>).
\<close>

fun ScanPool :: "(addr \<Rightarrow> FString) \<Rightarrow> FString \<Rightarrow> pointer list \<Rightarrow> pointer list \<Rightarrow> pointer list" where
  "ScanPool GetName soundName [] sounds = sounds"
| "ScanPool GetName soundName (Sound # pool) sounds =
     ScanPool GetName soundName pool
       (case Sound of
          None \<Rightarrow> sounds
        | Some a \<Rightarrow>
            if Stricmp_eq (GetName a) soundName \<and> Sound \<notin> set sounds
            then sounds @ [Sound] else sounds)"

fun ScanNames :: "(addr \<Rightarrow> FString) \<Rightarrow> FString list \<Rightarrow> pointer list \<Rightarrow> pointer list \<Rightarrow> pointer list" where
  "ScanNames GetName [] pool sounds = sounds"
| "ScanNames GetName (soundName # names) pool sounds =
     ScanNames GetName names pool (ScanPool GetName soundName pool sounds)"

definition GetSoundByName :: "object_store \<Rightarrow> FString list \<Rightarrow> pointer list \<Rightarrow> pointer list" where
  "GetSoundByName h SoundNames NarrativeSounds = ScanNames (SoundName h) SoundNames NarrativeSounds []"

definition GetImageByName :: "object_store \<Rightarrow> FString list \<Rightarrow> pointer list \<Rightarrow> pointer list" where
  "GetImageByName h ImageNames Images = ScanNames (ImageName h) ImageNames Images []"

text \<open>
  \<open>GetActorByName\<close> walks the candidate actors and returns the first non-null one whose
  \<open>Tags[0]\<close> equals \<open>FName(ActorName)\<close>, with the flag and the message it sets through
  its reference parameters. \<open>Tags[0]\<close> of an actor without tags fails the range check.
  The parameter \<open>World\<close> is not used by the function and is left out.
\<close>

fun GetActorByName :: "object_store \<Rightarrow> FString \<Rightarrow> pointer list \<Rightarrow> error + (pointer \<times> bool \<times> FString)" where
  "GetActorByName h ActorName [] = Inr (None, False, ''Actor Not Found'')"
| "GetActorByName h ActorName (cp # CPActors) =
     (case cp of
        None \<Rightarrow> GetActorByName h ActorName CPActors
      | Some a \<Rightarrow>
          (case Tags h a of
             [] \<Rightarrow> Inl RangeCheck
           | t # _ \<Rightarrow>
               if t = FName ActorName then Inr (cp, True, ''Actor Found'')
               else GetActorByName h ActorName CPActors))"

datatype Instructions =
    LearnMoreProposed
  | LearnMoreCompleted
  | HowToSelection
  | QuizProposed
  | LearnMoreNavigation
  | MiniGameQuiz_Context
  | MiniGameQuiz_QuestionInstruction
  | Inactivty_Instruction

definition StringToInstructions :: "FString \<Rightarrow> Instructions" where
  "StringToInstructions InstructionType =
     (if Stricmp_eq InstructionType ''LearnMoreProposed'' then LearnMoreProposed
      else if Stricmp_eq InstructionType ''LearnMoreCompleted'' then LearnMoreCompleted
      else if Stricmp_eq InstructionType ''HowToSelection'' then HowToSelection
      else if Stricmp_eq InstructionType ''QuizProposed'' then QuizProposed
      else if Stricmp_eq InstructionType ''LearnMoreNavigation'' then LearnMoreNavigation
      else if Stricmp_eq InstructionType ''MiniGameQuiz_Context'' then MiniGameQuiz_Context
      else if Stricmp_eq InstructionType ''MiniGameQuiz_QuestionInstruction''
        then MiniGameQuiz_QuestionInstruction
      else if Stricmp_eq InstructionType ''Inactivity_Instruction'' then Inactivty_Instruction
      else LearnMoreProposed)"

section \<open>The decoder and the process state\<close>

text \<open>
  Modelled from the spec: \<open>UJsonHelper::ReadStructFromJsonFile<T>\<close> (JsonHelper.h is not
  among the sources). The specification gives its interface:
  \<open>decode<T>(path) -> (T, success, message)\<close>; it never throws, and on failure it returns
  a default-valued \<open>T\<close>, \<open>success = false\<close> and a diagnostic string. What reading the
  file at a path as a \<open>T\<close> gives is the parameter \<open>content\<close>; \<open>dflt\<close> is the
  default-constructed \<open>T\<close>. The loaders reach the decoder through \<open>m_JsonHelper\<close>, which
  \<open>GameData()\<close> creates; the model is of calls made after that.
\<close>

datatype 'a parse = Parsed 'a FString | ParseFailed FString

definition ReadStructFromJsonFile :: "(FString \<Rightarrow> 'a parse) \<Rightarrow> 'a \<Rightarrow> FString \<Rightarrow> 'a \<times> bool \<times> FString" where
  "ReadStructFromJsonFile content dflt path =
     (case content path of
        Parsed v message \<Rightarrow> (v, True, message)
      | ParseFailed message \<Rightarrow> (dflt, False, message))"

text \<open>
  The structures the files decode to, and the ones the loaders return, are declared in
  JsonHelper.h as well; their fields are taken from the uses in GameData.cpp. The four
  narration fields that every input record and every output bundle share are a record
  of their own, which the others extend. A decoded file is its array \<open>Data\<close>. The field
  \<open>CorrespondingCPIndex\<close> of the output \<open>FLearnMoreNarration\<close> is written
  \<open>m_CorrespondingCPIndex\<close>, to tell it from the input field of the same name. The
  integer fields are only copied and compared, never calculated with.
\<close>

record NarrationSource =
  TitleCaptionKey :: FString
  CaptionKeys :: "FString list"
  EnglishNarrationSoundNames :: "FString list"
  FrenchNarrationSoundNames :: "FString list"

record FInstruction = NarrationSource +
  InstructionType :: FString

record FCheckpoint = NarrationSource +
  CheckpointName :: FString
  CheckpointFrameNumber :: int
  ShouldStopCamera :: bool
  HasLearnMoreOption :: bool
  HasQuiz :: bool
  NumOfLearnMoreOption :: int

record FLearnMore = NarrationSource +
  CorrespondingCPIndex :: int
  ImagesNames :: "FString list"
  ImagesSources :: "FString list"

record FQuizQuestionOption =
  OptionName :: FString
  OptionDescription :: FString
  EnglishNarrationSound :: FString
  FrenchNarrationSound :: FString

record FQuizQuestionOptions =
  Options :: "FQuizQuestionOption list"

record FQuizQuestion =
  QuestionOptions :: FQuizQuestionOptions

record FQuizQuestions =
  m_Questions :: "FQuizQuestion list"

record FInstructionNarration =
  m_TitleKey :: FString
  m_Keys :: "FString list"
  m_EnglishNarrationSounds :: "pointer list"
  m_FrenchNarrationSounds :: "pointer list"

record FNarrationKeys = FInstructionNarration +
  m_ShouldStopCamera :: bool
  m_HasLearnMoreOption :: bool
  m_HasQuiz :: bool
  m_NumOfLearnMoreOptions :: int

record FLearnMoreNarration = FInstructionNarration +
  m_Images :: "pointer list"
  m_CorrespondingCPIndex :: int
  m_SourceName :: FString

record FInstructionGameData =
  InstructionKeyMap :: "Instructions \<rightharpoonup> FInstructionNarration"

record FCheckpointsGameData =
  ActorsToFollow :: "pointer list"
  ActorFrameMap :: "pointer \<rightharpoonup> int"
  ActorKeyMap :: "pointer \<rightharpoonup> FNarrationKeys"

record FLearnMoreGameData =
  LearnMoreData :: "FLearnMoreNarration list"

record FTilesGameData =
  LearnMoreKeyMap :: "nat \<rightharpoonup> FLearnMoreNarration"

text \<open>
  What outlives a call: the messages on the screen of \<open>GEngine\<close> (\<open>None\<close> when
  \<open>GEngine\<close> is null), and the function-local \<open>static DataStructure\<close> of
  \<open>LoadCheckpointsData\<close>, which C++ initialises the first time control passes its
  declaration and never again (\<open>None\<close> before that).
\<close>

record process =
  GEngine :: "FString list option"
  DataStructure :: "FCheckpoint list option"

definition AddOnScreenDebugMessage :: "FString \<Rightarrow> process \<Rightarrow> process" where
  "AddOnScreenDebugMessage message p =
     (case GEngine p of
        None \<Rightarrow> p
      | Some shown \<Rightarrow> p\<lparr>GEngine := Some (shown @ [message])\<rparr>)"

section \<open>The loaders\<close>

subsection \<open>Instructions\<close>

fun LoadInstructionsData_loop ::
  "object_store \<Rightarrow> pointer list \<Rightarrow> bool \<Rightarrow> FString \<Rightarrow> FInstruction list \<Rightarrow>
   FInstructionGameData \<times> process \<Rightarrow> FInstructionGameData \<times> process" where
  "LoadInstructionsData_loop h NarrativeSounds success message [] (instructionData, p) =
     (instructionData, p)"
| "LoadInstructionsData_loop h NarrativeSounds success message (d # ds) (instructionData, p) =
     (let narrationKeys =
            \<lparr>m_TitleKey = TitleCaptionKey d,
             m_Keys = CaptionKeys d,
             m_EnglishNarrationSounds = GetSoundByName h (EnglishNarrationSoundNames d) NarrativeSounds,
             m_FrenchNarrationSounds = GetSoundByName h (FrenchNarrationSoundNames d) NarrativeSounds\<rparr>;
          instructionData' = instructionData
            \<lparr>InstructionKeyMap :=
               (InstructionKeyMap instructionData)
                 (StringToInstructions (InstructionType d) \<mapsto> narrationKeys)\<rparr>;
          p' = (if \<not> success then AddOnScreenDebugMessage message p else p)
      in LoadInstructionsData_loop h NarrativeSounds success message ds (instructionData', p'))"

definition LoadInstructionsData ::
  "object_store \<Rightarrow> (FString \<Rightarrow> FInstruction list parse) \<Rightarrow> FString \<Rightarrow> pointer list \<Rightarrow>
   process \<Rightarrow> FInstructionGameData \<times> process" where
  "LoadInstructionsData h content path NarrativeSounds p =
     (case ReadStructFromJsonFile content [] path of
        (dataStructure, success, message) \<Rightarrow>
          LoadInstructionsData_loop h NarrativeSounds success message dataStructure
            (\<lparr>InstructionKeyMap = Map.empty\<rparr>, p))"

subsection \<open>Checkpoints\<close>

text \<open>
  \<open>success\<close> and \<open>message\<close> are written by the decoder only in the call that initialises
  the static; in the loop \<open>GetActorByName\<close> overwrites both before they are read.
\<close>

fun LoadCheckpointsData_loop ::
  "object_store \<Rightarrow> pointer list \<Rightarrow> pointer list \<Rightarrow> FCheckpoint list \<Rightarrow>
   FCheckpointsGameData \<times> process \<Rightarrow> error + (FCheckpointsGameData \<times> process)" where
  "LoadCheckpointsData_loop h NarrativeSounds CPActors [] (gameData, p) = Inr (gameData, p)"
| "LoadCheckpointsData_loop h NarrativeSounds CPActors (d # ds) (gameData, p) =
     (case GetActorByName h (CheckpointName d) CPActors of
        Inl e \<Rightarrow> Inl e
      | Inr (actor, success, message) \<Rightarrow>
          (let narrationKeys =
                 \<lparr>m_TitleKey = TitleCaptionKey d,
                  m_Keys = CaptionKeys d,
                  m_EnglishNarrationSounds = GetSoundByName h (EnglishNarrationSoundNames d) NarrativeSounds,
                  m_FrenchNarrationSounds = GetSoundByName h (FrenchNarrationSoundNames d) NarrativeSounds,
                  m_ShouldStopCamera = ShouldStopCamera d,
                  m_HasLearnMoreOption = HasLearnMoreOption d,
                  m_HasQuiz = HasQuiz d,
                  m_NumOfLearnMoreOptions = NumOfLearnMoreOption d\<rparr>;
               gameData' = gameData
                 \<lparr>ActorsToFollow := ActorsToFollow gameData @ [actor],
                  ActorFrameMap := (ActorFrameMap gameData)(actor \<mapsto> CheckpointFrameNumber d),
                  ActorKeyMap := (ActorKeyMap gameData)(actor \<mapsto> narrationKeys)\<rparr>;
               p' = (if \<not> success then AddOnScreenDebugMessage message p else p)
           in LoadCheckpointsData_loop h NarrativeSounds CPActors ds (gameData', p')))"

definition LoadCheckpointsData ::
  "object_store \<Rightarrow> (FString \<Rightarrow> FCheckpoint list parse) \<Rightarrow> FString \<Rightarrow> pointer list \<Rightarrow>
   pointer list \<Rightarrow> process \<Rightarrow> error + (FCheckpointsGameData \<times> process)" where
  "LoadCheckpointsData h content path NarrativeSounds CPActors p =
     (let p1 = (case DataStructure p of
                  Some kept \<Rightarrow> p
                | None \<Rightarrow> p\<lparr>DataStructure := Some (fst (ReadStructFromJsonFile content [] path))\<rparr>)
      in LoadCheckpointsData_loop h NarrativeSounds CPActors (the (DataStructure p1))
           (\<lparr>ActorsToFollow = [], ActorFrameMap = Map.empty, ActorKeyMap = Map.empty\<rparr>, p1))"

subsection \<open>Learn more\<close>

fun PopulateLearnMoreUI_loop ::
  "object_store \<Rightarrow> int \<Rightarrow> pointer list \<Rightarrow> pointer list \<Rightarrow> FLearnMore list \<Rightarrow>
   FLearnMoreGameData \<Rightarrow> FLearnMoreGameData" where
  "PopulateLearnMoreUI_loop h CurrentActorIndex NarrativeSounds Images [] learnMoreGameData =
     learnMoreGameData"
| "PopulateLearnMoreUI_loop h CurrentActorIndex NarrativeSounds Images (d # ds) learnMoreGameData =
     PopulateLearnMoreUI_loop h CurrentActorIndex NarrativeSounds Images ds
       (if CorrespondingCPIndex d = CurrentActorIndex
        then learnMoreGameData
          \<lparr>LearnMoreData := LearnMoreData learnMoreGameData @
             [\<lparr>m_TitleKey = TitleCaptionKey d,
               m_Keys = CaptionKeys d,
               m_EnglishNarrationSounds = GetSoundByName h (EnglishNarrationSoundNames d) NarrativeSounds,
               m_FrenchNarrationSounds = GetSoundByName h (FrenchNarrationSoundNames d) NarrativeSounds,
               m_Images = GetImageByName h (ImagesNames d) Images,
               m_CorrespondingCPIndex = CorrespondingCPIndex d,
               m_SourceName = (case ImagesSources d of [] \<Rightarrow> [] | src # _ \<Rightarrow> src)\<rparr>]\<rparr>
        else learnMoreGameData)"

definition PopulateLearnMoreUI ::
  "object_store \<Rightarrow> (FString \<Rightarrow> FLearnMore list parse) \<Rightarrow> FString \<Rightarrow> int \<Rightarrow> pointer list \<Rightarrow>
   pointer list \<Rightarrow> process \<Rightarrow> FLearnMoreGameData \<times> process" where
  "PopulateLearnMoreUI h content JSONpath CurrentActorIndex NarrativeSounds Images p =
     (case ReadStructFromJsonFile content [] JSONpath of
        (dataStructure, success, message) \<Rightarrow>
          (PopulateLearnMoreUI_loop h CurrentActorIndex NarrativeSounds Images dataStructure
             \<lparr>LearnMoreData = []\<rparr>, p))"

subsection \<open>Quiz\<close>

text \<open>
  \<open>ProjectContentDir\<close> is what \<open>FPaths::ProjectContentDir()\<close> returns.
\<close>

definition LoadQuizQuestions ::
  "(FString \<Rightarrow> FQuizQuestions parse) \<Rightarrow> FString \<Rightarrow> process \<Rightarrow> FQuizQuestions \<times> process" where
  "LoadQuizQuestions content ProjectContentDir p =
     (case ReadStructFromJsonFile content \<lparr>m_Questions = []\<rparr>
             (ProjectContentDir @ ''/JSONFiles/AutomatedTour/quiz.json'') of
        (quizData, success, message) \<Rightarrow>
          (quizData, if \<not> success then AddOnScreenDebugMessage message p else p))"

text \<open>
  In \<open>PopulateQuizUI\<close> the array \<open>options\<close> is a copy of the question's options. The
  copy holds the same elements; its \<open>Max()\<close> is what the allocator reserves for that
  many elements, the parameter \<open>SlackReserve\<close> (\<open>optionsMax\<close> in the loop). The loop runs \<open>i\<close> from 0 while
  \<open>i < options.Max()\<close>, and reads \<open>options[i]\<close> in every round. The bundle \<open>narration\<close>
  and the map are declared before the loop and carried through it. \<open>cpDefault\<close> is the value
  a default-constructed \<open>FLearnMoreNarration\<close> has in its integer field.
\<close>

function PopulateQuizUI_loop ::
  "object_store \<Rightarrow> pointer list \<Rightarrow> FQuizQuestionOption list \<Rightarrow> nat \<Rightarrow> nat \<Rightarrow>
   FLearnMoreNarration \<times> (nat \<rightharpoonup> FLearnMoreNarration) \<Rightarrow>
   error + (FLearnMoreNarration \<times> (nat \<rightharpoonup> FLearnMoreNarration))" where
  "PopulateQuizUI_loop h NarrativeSounds options optionsMax i (narration, narrationMap) =
     (if i < optionsMax then
        (if i < length options then
           (let narration' = narration
                  \<lparr>m_TitleKey := OptionName (options ! i),
                   m_Keys := m_Keys narration @ [OptionDescription (options ! i)],
                   m_EnglishNarrationSounds :=
                     GetSoundByName h [EnglishNarrationSound (options ! i)] NarrativeSounds,
                   m_FrenchNarrationSounds :=
                     GetSoundByName h [FrenchNarrationSound (options ! i)] NarrativeSounds\<rparr>
            in PopulateQuizUI_loop h NarrativeSounds options optionsMax (Suc i)
                 (narration', narrationMap(i \<mapsto> narration')))
         else Inl RangeCheck)
      else Inr (narration, narrationMap))"
  by pat_completeness auto
termination
  by (relation "measure (\<lambda>(h, NarrativeSounds, options, optionsMax, i, acc). optionsMax - i)") auto

definition PopulateQuizUI ::
  "(nat \<Rightarrow> nat) \<Rightarrow> int \<Rightarrow> object_store \<Rightarrow> pointer list \<Rightarrow> FQuizQuestions \<Rightarrow> int \<Rightarrow>
   error + FTilesGameData" where
  "PopulateQuizUI SlackReserve cpDefault h NarrativeSounds QuizQuestions CurrentQuestionIndex =
     (if 0 \<le> CurrentQuestionIndex \<and> nat CurrentQuestionIndex < length (m_Questions QuizQuestions)
      then
        (let options = Options (QuestionOptions (m_Questions QuizQuestions ! nat CurrentQuestionIndex))
         in case PopulateQuizUI_loop h NarrativeSounds options (SlackReserve (length options)) 0
                   (\<lparr>m_TitleKey = [], m_Keys = [], m_EnglishNarrationSounds = [],
                     m_FrenchNarrationSounds = [], m_Images = [], m_CorrespondingCPIndex = cpDefault,
                     m_SourceName = []\<rparr>, Map.empty) of
              Inl e \<Rightarrow> Inl e
            | Inr (narration, narrationMap) \<Rightarrow> Inr \<lparr>LearnMoreKeyMap = narrationMap\<rparr>)
      else Inl RangeCheck)"

section \<open>Notions used to state the properties\<close>

subsection \<open>Names and actors\<close>

text \<open>
  An asset matches a requested name when it is not null and its name compares equal to
  it. \<open>AppendUnique\<close> appends the elements of a list one by one and leaves out those
  that are there already.
\<close>

definition Matches :: "(addr \<Rightarrow> FString) \<Rightarrow> FString \<Rightarrow> pointer \<Rightarrow> bool" where
  "Matches GetName n s = (case s of None \<Rightarrow> False | Some a \<Rightarrow> Stricmp_eq (GetName a) n)"

fun AppendUnique :: "'a list \<Rightarrow> 'a list \<Rightarrow> 'a list" where
  "AppendUnique acc [] = acc"
| "AppendUnique acc (x # xs) = AppendUnique (if x \<in> set acc then acc else acc @ [x]) xs"

text \<open>
  An actor matches a name when it is not null and its first tag equals the name.
  \<open>Tagged\<close> says that every non-null candidate has a first tag. \<open>FirstMatch\<close> is the
  first candidate that matches, or null.
\<close>

definition TagMatches :: "object_store \<Rightarrow> FString \<Rightarrow> pointer \<Rightarrow> bool" where
  "TagMatches h ActorName cp =
     (case cp of
        None \<Rightarrow> False
      | Some a \<Rightarrow> (case Tags h a of [] \<Rightarrow> False | t # _ \<Rightarrow> t = FName ActorName))"

definition Tagged :: "object_store \<Rightarrow> pointer list \<Rightarrow> bool" where
  "Tagged h CPActors = (\<forall>cp \<in> set CPActors. case cp of None \<Rightarrow> True | Some a \<Rightarrow> Tags h a \<noteq> [])"

definition FirstMatch :: "object_store \<Rightarrow> FString \<Rightarrow> pointer list \<Rightarrow> pointer" where
  "FirstMatch h ActorName CPActors =
     (case find (TagMatches h ActorName) CPActors of None \<Rightarrow> None | Some cp \<Rightarrow> cp)"

subsection \<open>Instruction types\<close>

text \<open>
  The eight instruction types that \<open>StringToInstructions\<close> is written to recognise, with
  the value each stands for.
\<close>

definition RecognizedInstructions :: "(FString \<times> Instructions) list" where
  "RecognizedInstructions =
     [(''LearnMoreProposed'', LearnMoreProposed),
      (''LearnMoreCompleted'', LearnMoreCompleted),
      (''HowToSelection'', HowToSelection),
      (''QuizProposed'', QuizProposed),
      (''LearnMoreNavigation'', LearnMoreNavigation),
      (''MiniGameQuiz_Context'', MiniGameQuiz_Context),
      (''MiniGameQuiz_QuestionInstruction'', MiniGameQuiz_QuestionInstruction),
      (''Inactivity_Instruction'', Inactivty_Instruction)]"

subsection \<open>Checkpoints\<close>

text \<open>
  The bundle \<open>LoadCheckpointsData\<close> builds from one record, and the message a record
  adds to the screen when its actor is not found.
\<close>

definition NarrationKeys_of :: "object_store \<Rightarrow> pointer list \<Rightarrow> FCheckpoint \<Rightarrow> FNarrationKeys" where
  "NarrationKeys_of h NarrativeSounds d =
     \<lparr>m_TitleKey = TitleCaptionKey d,
      m_Keys = CaptionKeys d,
      m_EnglishNarrationSounds = GetSoundByName h (EnglishNarrationSoundNames d) NarrativeSounds,
      m_FrenchNarrationSounds = GetSoundByName h (FrenchNarrationSoundNames d) NarrativeSounds,
      m_ShouldStopCamera = ShouldStopCamera d,
      m_HasLearnMoreOption = HasLearnMoreOption d,
      m_HasQuiz = HasQuiz d,
      m_NumOfLearnMoreOptions = NumOfLearnMoreOption d\<rparr>"

definition ReportUnresolved :: "object_store \<Rightarrow> pointer list \<Rightarrow> process \<Rightarrow> FCheckpoint \<Rightarrow> process" where
  "ReportUnresolved h CPActors p d =
     (if FirstMatch h (CheckpointName d) CPActors = None
      then AddOnScreenDebugMessage ''Actor Not Found'' p else p)"

text \<open>
  The records a call of \<open>LoadCheckpointsData\<close> goes through: those the static holds, and
  on the call that initialises the static those decoded from the file.
\<close>

definition CheckpointRecords :: "(FString \<Rightarrow> FCheckpoint list parse) \<Rightarrow> FString \<Rightarrow> process \<Rightarrow> FCheckpoint list" where
  "CheckpointRecords content path p =
     (case DataStructure p of
        Some kept \<Rightarrow> kept
      | None \<Rightarrow> fst (ReadStructFromJsonFile content [] path))"

text \<open>
  What a call of \<open>LoadCheckpointsData\<close> returns, read off the result: the actors to
  follow, the frame number under the null key, the data, and the process left behind.
\<close>

definition followed :: "error + FCheckpointsGameData \<times> process \<Rightarrow> error + pointer list" where
  "followed r = map_sum id (\<lambda>x. ActorsToFollow (fst x)) r"

definition null_frame :: "error + FCheckpointsGameData \<times> process \<Rightarrow> error + int option" where
  "null_frame r = map_sum id (\<lambda>x. ActorFrameMap (fst x) None) r"

definition returned :: "error + FCheckpointsGameData \<times> process \<Rightarrow> error + FCheckpointsGameData" where
  "returned r = map_sum id fst r"

definition left_behind :: "error + FCheckpointsGameData \<times> process \<Rightarrow> error + process" where
  "left_behind r = map_sum id snd r"

text \<open>
  The checkpoint data of a call that went through no record.
\<close>

definition nothing_loaded :: FCheckpointsGameData where
  "nothing_loaded = \<lparr>ActorsToFollow = [], ActorFrameMap = Map.empty, ActorKeyMap = Map.empty\<rparr>"

subsection \<open>Learn more\<close>

text \<open>
  The bundle that \<open>PopulateLearnMoreUI\<close> builds from one record.
\<close>

definition LearnMoreNarration_of ::
  "object_store \<Rightarrow> pointer list \<Rightarrow> pointer list \<Rightarrow> FLearnMore \<Rightarrow> FLearnMoreNarration" where
  "LearnMoreNarration_of h NarrativeSounds Images d =
     \<lparr>m_TitleKey = TitleCaptionKey d,
      m_Keys = CaptionKeys d,
      m_EnglishNarrationSounds = GetSoundByName h (EnglishNarrationSoundNames d) NarrativeSounds,
      m_FrenchNarrationSounds = GetSoundByName h (FrenchNarrationSoundNames d) NarrativeSounds,
      m_Images = GetImageByName h (ImagesNames d) Images,
      m_CorrespondingCPIndex = CorrespondingCPIndex d,
      m_SourceName = (case ImagesSources d of [] \<Rightarrow> [] | src # _ \<Rightarrow> src)\<rparr>"

subsection \<open>Quiz\<close>

text \<open>
  The equation of \<open>PopulateQuizUI_loop\<close> calls the loop again on its right-hand side;
  it is unfolded one round at a time.
\<close>

declare PopulateQuizUI_loop.simps [simp del]

text \<open>
  The default-constructed \<open>narration\<close> that \<open>PopulateQuizUI\<close> starts from; what one
  round of the loop makes of \<open>narration\<close>; and the bundle that round \<open>j\<close> stores when
  the loop was entered at \<open>i\<close> with \<open>narration\<close>.
\<close>

definition initial_narration :: "int \<Rightarrow> FLearnMoreNarration" where
  "initial_narration cpDefault =
     \<lparr>m_TitleKey = [], m_Keys = [], m_EnglishNarrationSounds = [],
      m_FrenchNarrationSounds = [], m_Images = [], m_CorrespondingCPIndex = cpDefault,
      m_SourceName = []\<rparr>"

definition QuizRound ::
  "object_store \<Rightarrow> pointer list \<Rightarrow> FQuizQuestionOption \<Rightarrow> FLearnMoreNarration \<Rightarrow> FLearnMoreNarration" where
  "QuizRound h NarrativeSounds opt narration =
     narration
       \<lparr>m_TitleKey := OptionName opt,
        m_Keys := m_Keys narration @ [OptionDescription opt],
        m_EnglishNarrationSounds := GetSoundByName h [EnglishNarrationSound opt] NarrativeSounds,
        m_FrenchNarrationSounds := GetSoundByName h [FrenchNarrationSound opt] NarrativeSounds\<rparr>"

definition QuizEntry ::
  "object_store \<Rightarrow> pointer list \<Rightarrow> FQuizQuestionOption list \<Rightarrow> FLearnMoreNarration \<Rightarrow> nat \<Rightarrow> nat \<Rightarrow>
   FLearnMoreNarration" where
  "QuizEntry h NarrativeSounds options narration i j =
     narration
       \<lparr>m_TitleKey := OptionName (options ! j),
        m_Keys := m_Keys narration @ map OptionDescription (take (Suc j - i) (drop i options)),
        m_EnglishNarrationSounds :=
          GetSoundByName h [EnglishNarrationSound (options ! j)] NarrativeSounds,
        m_FrenchNarrationSounds :=
          GetSoundByName h [FrenchNarrationSound (options ! j)] NarrativeSounds\<rparr>"

text \<open>
  What a call of \<open>PopulateQuizUI\<close> returns, read off the result: the caption list at a
  position, and the set of positions.
\<close>

definition tile_keys :: "nat \<Rightarrow> error + FTilesGameData \<Rightarrow> error + FString list option" where
  "tile_keys i r = map_sum id (\<lambda>t. map_option m_Keys (LearnMoreKeyMap t i)) r"

definition tile_positions :: "error + FTilesGameData \<Rightarrow> error + nat set" where
  "tile_positions r = map_sum id (\<lambda>t. dom (LearnMoreKeyMap t)) r"

section \<open>Concrete inputs\<close>

text \<open>
  A store in which every sound and every image is called \<open>A\<close> and every actor carries
  the tag \<open>CP_1\<close>. A process that has not called any loader yet, the same without a
  screen, and a content directory without files.
\<close>

definition same_names :: object_store where
  "same_names = \<lparr>SoundName = (\<lambda>a. ''A''), ImageName = (\<lambda>a. ''A''), Tags = (\<lambda>a. [FName ''CP_1''])\<rparr>"

definition fresh :: process where
  "fresh = \<lparr>GEngine = Some [], DataStructure = None\<rparr>"

definition muted :: process where
  "muted = \<lparr>GEngine = None, DataStructure = None\<rparr>"

definition no_files :: "FString \<Rightarrow> 'a parse" where
  "no_files path = ParseFailed ''no such file''"

text \<open>
  A learn-more file of four panels that belong to the checkpoints 0, 1, 1 and 2.
\<close>

definition panel :: "FString \<Rightarrow> int \<Rightarrow> FLearnMore" where
  "panel title cp =
     \<lparr>TitleCaptionKey = title, CaptionKeys = [], EnglishNarrationSoundNames = [],
      FrenchNarrationSoundNames = [], CorrespondingCPIndex = cp, ImagesNames = [],
      ImagesSources = []\<rparr>"

definition four_panels :: "FString \<Rightarrow> FLearnMore list parse" where
  "four_panels path =
     Parsed [panel ''first'' 0, panel ''second'' 1, panel ''third'' 1, panel ''fourth'' 2] ''read''"

text \<open>
  A directory with a checkpoint file of three records and one without records, and the
  process after \<open>tour.json\<close> has been loaded with the actor 4 as the only candidate.
\<close>

definition checkpoint :: "FString \<Rightarrow> int \<Rightarrow> FCheckpoint" where
  "checkpoint name frame =
     \<lparr>TitleCaptionKey = name, CaptionKeys = [], EnglishNarrationSoundNames = [],
      FrenchNarrationSoundNames = [], CheckpointName = name, CheckpointFrameNumber = frame,
      ShouldStopCamera = False, HasLearnMoreOption = False, HasQuiz = False,
      NumOfLearnMoreOption = 0\<rparr>"

definition three_checkpoints :: "FString \<Rightarrow> FCheckpoint list parse" where
  "three_checkpoints path =
     (if path = ''tour.json''
      then Parsed [checkpoint ''CP_7'' 10, checkpoint ''CP_1'' 20, checkpoint ''CP_8'' 30] ''read''
      else if path = ''empty.json'' then Parsed [] ''read''
      else ParseFailed ''no such file'')"

definition visited :: process where
  "visited =
     \<lparr>GEngine = Some [''Actor Not Found'', ''Actor Not Found''],
      DataStructure = Some [checkpoint ''CP_7'' 10, checkpoint ''CP_1'' 20, checkpoint ''CP_8'' 30]\<rparr>"

text \<open>
  Two allocators: one reserves exactly what is asked for, the other rounds up to a
  multiple of four elements. A quiz of one question with two options.
\<close>

definition exact_fit :: "nat \<Rightarrow> nat" where
  "exact_fit n = n"

definition rounded_up :: "nat \<Rightarrow> nat" where
  "rounded_up n = 4 * ((n + 3) div 4)"

definition choice :: "FString \<Rightarrow> FString \<Rightarrow> FQuizQuestionOption" where
  "choice name description =
     \<lparr>OptionName = name, OptionDescription = description, EnglishNarrationSound = ''A'',
      FrenchNarrationSound = ''A''\<rparr>"

definition two_choices :: FQuizQuestions where
  "two_choices =
     \<lparr>m_Questions =
        [\<lparr>QuestionOptions =
            \<lparr>Options = [choice ''yes'' ''it is so'', choice ''no'' ''it is not so'']\<rparr>\<rparr>]\<rparr>"

section \<open>Name resolution: lemmas\<close>

lemma AppendUnique_append: "AppendUnique acc (xs @ ys) = AppendUnique (AppendUnique acc xs) ys"
  by (induction xs arbitrary: acc) simp_all

lemma AppendUnique_set: "set (AppendUnique acc xs) = set acc \<union> set xs"
  by (induction xs arbitrary: acc) auto

lemma AppendUnique_distinct: "distinct acc \<Longrightarrow> distinct (AppendUnique acc xs)"
  by (induction xs arbitrary: acc) auto

lemma AppendUnique_absorb: "set xs \<subseteq> set acc \<Longrightarrow> AppendUnique acc xs = acc"
  by (induction xs arbitrary: acc) auto

lemma ScanPool_AppendUnique:
  "ScanPool GetName n pool acc = AppendUnique acc (filter (Matches GetName n) pool)"
  by (induction pool arbitrary: acc) (auto simp: Matches_def split: option.splits)

lemma ScanNames_AppendUnique:
  "ScanNames GetName names pool acc =
     AppendUnique acc (concat (map (\<lambda>n. filter (Matches GetName n) pool) names))"
  by (induction names arbitrary: acc) (simp_all add: ScanPool_AppendUnique AppendUnique_append)

lemma ScanNames_twice:
  "ScanNames GetName (n # n # names) pool acc = ScanNames GetName (n # names) pool acc"
proof -
  let ?ms = "filter (Matches GetName n) pool"
  have "AppendUnique (AppendUnique acc ?ms) ?ms = AppendUnique acc ?ms"
    by (rule AppendUnique_absorb) (simp add: AppendUnique_set)
  then show ?thesis
    by (simp add: ScanPool_AppendUnique)
qed

lemma ScanNames_set:
  "set (ScanNames GetName names pool acc) =
     set acc \<union> {s \<in> set pool. \<exists>n \<in> set names. Matches GetName n s}"
  by (auto simp: ScanNames_AppendUnique AppendUnique_set)

lemma ScanNames_distinct: "distinct acc \<Longrightarrow> distinct (ScanNames GetName names pool acc)"
  by (simp add: ScanNames_AppendUnique AppendUnique_distinct)

section \<open>Actors and checkpoints: lemmas\<close>

lemma Tagged_Cons:
  "Tagged h (cp # CPActors) \<longleftrightarrow>
     (case cp of None \<Rightarrow> True | Some a \<Rightarrow> Tags h a \<noteq> []) \<and> Tagged h CPActors"
  by (simp add: Tagged_def)

lemma GetActorByName_find:
  "Tagged h CPActors \<Longrightarrow>
   GetActorByName h ActorName CPActors =
     (case find (TagMatches h ActorName) CPActors of
        Some cp \<Rightarrow> Inr (cp, True, ''Actor Found'')
      | None \<Rightarrow> Inr (None, False, ''Actor Not Found''))"
  by (induction CPActors)
     (auto simp: Tagged_Cons TagMatches_def split: option.splits list.splits)

lemma find_TagMatches_not_null: "find (TagMatches h n) CPActors \<noteq> Some None"
  by (auto simp: find_Some_iff TagMatches_def)

lemma GetActorByName_FirstMatch:
  "Tagged h CPActors \<Longrightarrow>
   GetActorByName h ActorName CPActors =
     Inr (FirstMatch h ActorName CPActors,
          FirstMatch h ActorName CPActors \<noteq> None,
          if FirstMatch h ActorName CPActors = None then ''Actor Not Found'' else ''Actor Found'')"
  using find_TagMatches_not_null [of h ActorName CPActors]
  by (auto simp: GetActorByName_find FirstMatch_def split: option.splits)

lemma map_add_single: "m ++ ([k \<mapsto> v] ++ f) = m(k \<mapsto> v) ++ f"
  by (rule ext) (simp add: map_add_def split: option.splits)

lemma LoadCheckpointsData_loop_eq:
  "Tagged h CPActors \<Longrightarrow>
   LoadCheckpointsData_loop h NarrativeSounds CPActors ds (gameData, p) =
     Inr (gameData
            \<lparr>ActorsToFollow := ActorsToFollow gameData @
               map (\<lambda>d. FirstMatch h (CheckpointName d) CPActors) ds,
             ActorFrameMap := ActorFrameMap gameData ++
               map_of (rev (map (\<lambda>d. (FirstMatch h (CheckpointName d) CPActors,
                                        CheckpointFrameNumber d)) ds)),
             ActorKeyMap := ActorKeyMap gameData ++
               map_of (rev (map (\<lambda>d. (FirstMatch h (CheckpointName d) CPActors,
                                        NarrationKeys_of h NarrativeSounds d)) ds))\<rparr>,
          foldl (ReportUnresolved h CPActors) p ds)"
proof (induction ds arbitrary: gameData p)
  case Nil
  then show ?case by simp
next
  case (Cons d ds)
  show ?case
    using Cons.prems
    by (simp add: GetActorByName_FirstMatch Cons.IH [OF Cons.prems] Let_def
        ReportUnresolved_def NarrationKeys_of_def map_add_single)
qed

lemma map_of_rev_last:
  "map_of (rev (map (\<lambda>d. (f d, g d)) ds)) k =
     (case filter (\<lambda>d. f d = k) ds of [] \<Rightarrow> None | u # us \<Rightarrow> Some (g (last (u # us))))"
  by (induction ds rule: rev_induct) (auto split: list.splits)

lemma dom_map_of_rev: "dom (map_of (rev (map (\<lambda>d. (f d, g d)) ds))) = f ` set ds"
  by (simp add: dom_map_of_conv_image_fst image_image)

lemma twice_not_distinct:
  assumes "2 \<le> length (filter (\<lambda>x. x = a) xs)"
  shows "card (set xs) < length xs"
proof -
  have "\<not> distinct xs"
  proof
    assume d: "distinct xs"
    have "length (filter (\<lambda>x. x = a) xs) = card ({x. x = a} \<inter> set xs)"
      using d by (rule distinct_length_filter)
    also have "\<dots> \<le> card {a}"
      by (intro card_mono) auto
    finally show False using assms by simp
  qed
  then show ?thesis
    using card_length [of xs] card_distinct [of xs] by (cases "card (set xs) = length xs") auto
qed

section \<open>The quiz loop: lemmas\<close>

lemma PopulateQuizUI_loop_stop:
  "\<not> i < optionsMax \<Longrightarrow>
   PopulateQuizUI_loop h NarrativeSounds options optionsMax i (narration, narrationMap) =
     Inr (narration, narrationMap)"
  by (simp add: PopulateQuizUI_loop.simps [of h NarrativeSounds options optionsMax i])

lemma PopulateQuizUI_loop_range:
  "i < optionsMax \<Longrightarrow> \<not> i < length options \<Longrightarrow>
   PopulateQuizUI_loop h NarrativeSounds options optionsMax i (narration, narrationMap) =
     Inl RangeCheck"
  by (simp add: PopulateQuizUI_loop.simps [of h NarrativeSounds options optionsMax i])

lemma PopulateQuizUI_loop_step:
  "i < optionsMax \<Longrightarrow> i < length options \<Longrightarrow>
   PopulateQuizUI_loop h NarrativeSounds options optionsMax i (narration, narrationMap) =
     PopulateQuizUI_loop h NarrativeSounds options optionsMax (Suc i)
       (QuizRound h NarrativeSounds (options ! i) narration,
        narrationMap(i \<mapsto> QuizRound h NarrativeSounds (options ! i) narration))"
  by (simp add: PopulateQuizUI_loop.simps [of h NarrativeSounds options optionsMax i]
      QuizRound_def Let_def)

lemma PopulateQuizUI_loop_fails:
  "i \<le> length options \<Longrightarrow> length options < optionsMax \<Longrightarrow>
   PopulateQuizUI_loop h NarrativeSounds options optionsMax i (narration, narrationMap) =
     Inl RangeCheck"
proof (induction "length options - i" arbitrary: i narration narrationMap)
  case 0
  then show ?case by (simp add: PopulateQuizUI_loop_range)
next
  case (Suc k)
  then have "i < optionsMax" "i < length options" "k = length options - Suc i"
    "Suc i \<le> length options" by simp_all
  with Suc.hyps(1) Suc.prems(2) show ?case by (simp add: PopulateQuizUI_loop_step)
qed

lemma QuizEntry_first:
  "i < length options \<Longrightarrow>
   QuizEntry h NarrativeSounds options narration i i = QuizRound h NarrativeSounds (options ! i) narration"
  by (simp add: QuizEntry_def QuizRound_def take_Suc hd_drop_conv_nth)

lemma QuizEntry_later:
  "i < length options \<Longrightarrow> Suc i \<le> j \<Longrightarrow>
   QuizEntry h NarrativeSounds options (QuizRound h NarrativeSounds (options ! i) narration) (Suc i) j =
     QuizEntry h NarrativeSounds options narration i j"
proof -
  assume a: "i < length options" "Suc i \<le> j"
  then have "take (Suc j - i) (drop i options) =
               options ! i # take (Suc j - Suc i) (drop (Suc i) options)"
    by (simp add: Suc_diff_le Cons_nth_drop_Suc [symmetric])
  then show ?thesis
    by (simp add: QuizEntry_def QuizRound_def)
qed

lemma PopulateQuizUI_loop_returns:
  "optionsMax \<le> length options \<Longrightarrow>
   \<exists>n'. PopulateQuizUI_loop h NarrativeSounds options optionsMax i (narration, narrationMap) =
     Inr (n', \<lambda>j. if i \<le> j \<and> j < optionsMax
                   then Some (QuizEntry h NarrativeSounds options narration i j)
                   else narrationMap j)"
proof (induction "optionsMax - i" arbitrary: i narration narrationMap)
  case 0
  then have stop: "\<not> i < optionsMax" by simp
  then have "(\<lambda>j. if i \<le> j \<and> j < optionsMax
                   then Some (QuizEntry h NarrativeSounds options narration i j)
                   else narrationMap j) = narrationMap"
    by (intro ext) auto
  with stop show ?case by (simp add: PopulateQuizUI_loop_stop)
next
  case (Suc k)
  then have lt: "i < optionsMax" "i < length options" and k: "k = optionsMax - Suc i"
    by simp_all
  let ?n = "QuizRound h NarrativeSounds (options ! i) narration"
  from Suc.hyps(1) [OF k Suc.prems, of ?n "narrationMap(i \<mapsto> ?n)"]
  obtain n' where
    "PopulateQuizUI_loop h NarrativeSounds options optionsMax (Suc i) (?n, narrationMap(i \<mapsto> ?n)) =
       Inr (n', \<lambda>j. if Suc i \<le> j \<and> j < optionsMax
                     then Some (QuizEntry h NarrativeSounds options ?n (Suc i) j)
                     else (narrationMap(i \<mapsto> ?n)) j)"
    by blast
  moreover have "(\<lambda>j. if Suc i \<le> j \<and> j < optionsMax
                     then Some (QuizEntry h NarrativeSounds options ?n (Suc i) j)
                     else (narrationMap(i \<mapsto> ?n)) j) =
                 (\<lambda>j. if i \<le> j \<and> j < optionsMax
                   then Some (QuizEntry h NarrativeSounds options narration i j)
                   else narrationMap j)"
  proof (rule ext)
    fix j
    show "(if Suc i \<le> j \<and> j < optionsMax
                     then Some (QuizEntry h NarrativeSounds options ?n (Suc i) j)
                     else (narrationMap(i \<mapsto> ?n)) j) =
          (if i \<le> j \<and> j < optionsMax
                   then Some (QuizEntry h NarrativeSounds options narration i j)
                   else narrationMap j)"
    proof (cases "j = i")
      case True
      with lt show ?thesis by (simp add: QuizEntry_first)
    next
      case False
      with lt show ?thesis by (auto simp: QuizEntry_later)
    qed
  qed
  ultimately show ?case
    using lt by (simp add: PopulateQuizUI_loop_step)
qed

section \<open>Instruction types\<close>

lemma ToLower_recognized:
  "map ToLower ''LearnMoreProposed'' = ''learnmoreproposed''"
  "map ToLower ''LearnMoreCompleted'' = ''learnmorecompleted''"
  "map ToLower ''HowToSelection'' = ''howtoselection''"
  "map ToLower ''QuizProposed'' = ''quizproposed''"
  "map ToLower ''LearnMoreNavigation'' = ''learnmorenavigation''"
  "map ToLower ''MiniGameQuiz_Context'' = ''minigamequiz_context''"
  "map ToLower ''MiniGameQuiz_QuestionInstruction'' = ''minigamequiz_questioninstruction''"
  "map ToLower ''Inactivity_Instruction'' = ''inactivity_instruction''"
  by (simp_all add: ToLower_def)

lemma StringToInstructions_lower:
  "StringToInstructions s =
     (if map ToLower s = ''learnmoreproposed'' then LearnMoreProposed
      else if map ToLower s = ''learnmorecompleted'' then LearnMoreCompleted
      else if map ToLower s = ''howtoselection'' then HowToSelection
      else if map ToLower s = ''quizproposed'' then QuizProposed
      else if map ToLower s = ''learnmorenavigation'' then LearnMoreNavigation
      else if map ToLower s = ''minigamequiz_context'' then MiniGameQuiz_Context
      else if map ToLower s = ''minigamequiz_questioninstruction''
        then MiniGameQuiz_QuestionInstruction
      else if map ToLower s = ''inactivity_instruction'' then Inactivty_Instruction
      else LearnMoreProposed)"
  unfolding StringToInstructions_def Stricmp_eq_def ToLower_recognized ..

lemma Stricmp_eq_recognized:
  "(\<forall>(r, v) \<in> set RecognizedInstructions. P r v) \<longleftrightarrow>
     P ''LearnMoreProposed'' LearnMoreProposed \<and>
     P ''LearnMoreCompleted'' LearnMoreCompleted \<and>
     P ''HowToSelection'' HowToSelection \<and>
     P ''QuizProposed'' QuizProposed \<and>
     P ''LearnMoreNavigation'' LearnMoreNavigation \<and>
     P ''MiniGameQuiz_Context'' MiniGameQuiz_Context \<and>
     P ''MiniGameQuiz_QuestionInstruction'' MiniGameQuiz_QuestionInstruction \<and>
     P ''Inactivity_Instruction'' Inactivty_Instruction"
  by (simp add: RecognizedInstructions_def)

text \<open>
  C5 (as amended). Each of the eight recognised instruction-type strings maps to its
  value, and so does every string that equals one of them up to the case of its ASCII
  letters, because \<open>==\<close> on \<open>FString\<close> ignores case; every string that equals none of the
  eight up to case maps to \<open>LearnMoreProposed\<close>.
\<close>

theorem StringToInstructions_ignores_case:
  "(\<forall>(r, v) \<in> set RecognizedInstructions. StringToInstructions r = v) \<and>
   (\<forall>(r, v) \<in> set RecognizedInstructions. Stricmp_eq s r \<longrightarrow> StringToInstructions s = v) \<and>
   ((\<forall>(r, v) \<in> set RecognizedInstructions. \<not> Stricmp_eq s r) \<longrightarrow>
      StringToInstructions s = LearnMoreProposed)"
proof (intro conjI)
  show "\<forall>(r, v) \<in> set RecognizedInstructions. StringToInstructions r = v"
    unfolding Stricmp_eq_recognized StringToInstructions_lower ToLower_recognized
    by simp
  show "\<forall>(r, v) \<in> set RecognizedInstructions. Stricmp_eq s r \<longrightarrow> StringToInstructions s = v"
    unfolding Stricmp_eq_recognized StringToInstructions_lower Stricmp_eq_def ToLower_recognized
    by simp
  show "(\<forall>(r, v) \<in> set RecognizedInstructions. \<not> Stricmp_eq s r) \<longrightarrow>
      StringToInstructions s = LearnMoreProposed"
    unfolding Stricmp_eq_recognized StringToInstructions_lower Stricmp_eq_def ToLower_recognized
    by simp
qed

text \<open>
  The theorem at \<open>hOWtOsELECTION\<close>, which matches \<open>HowToSelection\<close> up to case, and at
  \<open>Jump\<close>, which matches none of the eight.
\<close>

theorem StringToInstructions_ignores_case_witness:
  "Stricmp_eq ''hOWtOsELECTION'' ''HowToSelection'' \<and>
   StringToInstructions ''hOWtOsELECTION'' = HowToSelection \<and>
   list_all (\<lambda>(r, v). \<not> Stricmp_eq ''Jump'' r) RecognizedInstructions \<and>
   StringToInstructions ''Jump'' = LearnMoreProposed"
proof -
  have a: "map ToLower ''hOWtOsELECTION'' = ''howtoselection''" "map ToLower ''Jump'' = ''jump''"
    by (simp_all add: ToLower_def)
  have h: "Stricmp_eq ''hOWtOsELECTION'' ''HowToSelection''"
    unfolding Stricmp_eq_def a ToLower_recognized ..
  have j: "\<forall>(r, v) \<in> set RecognizedInstructions. \<not> Stricmp_eq ''Jump'' r"
    unfolding Stricmp_eq_recognized Stricmp_eq_def a ToLower_recognized by simp
  have "StringToInstructions ''hOWtOsELECTION'' = HowToSelection"
    using StringToInstructions_ignores_case [of "''hOWtOsELECTION''"] h
    unfolding Stricmp_eq_recognized by blast
  moreover have "StringToInstructions ''Jump'' = LearnMoreProposed"
    using StringToInstructions_ignores_case [of "''Jump''"] j by blast
  ultimately show ?thesis
    using h j by (simp add: list_all_iff)
qed

text \<open>
  The match is not exact: \<open>quizproposed\<close> is none of the eight strings and does not map to
  the default value.
\<close>

theorem StringToInstructions_exact_counterexample:
  "''quizproposed'' \<notin> fst ` set RecognizedInstructions \<and>
   StringToInstructions ''quizproposed'' \<noteq> LearnMoreProposed"
proof -
  have a: "map ToLower ''quizproposed'' = ''quizproposed''"
    by (simp add: ToLower_def)
  show ?thesis
    unfolding StringToInstructions_lower a
    by (simp add: RecognizedInstructions_def)
qed

section \<open>Learn more\<close>

lemma PopulateLearnMoreUI_loop_eq:
  "PopulateLearnMoreUI_loop h CurrentActorIndex NarrativeSounds Images ds learnMoreGameData =
     learnMoreGameData
       \<lparr>LearnMoreData := LearnMoreData learnMoreGameData @
          map (LearnMoreNarration_of h NarrativeSounds Images)
            (filter (\<lambda>d. CorrespondingCPIndex d = CurrentActorIndex) ds)\<rparr>"
  by (induction ds arbitrary: learnMoreGameData) (simp_all add: LearnMoreNarration_of_def)

text \<open>
  C9. When the learn-more file decodes to \<open>records\<close>, \<open>PopulateLearnMoreUI\<close> returns the
  bundles of exactly the records whose \<open>CorrespondingCPIndex\<close> equals \<open>CurrentActorIndex\<close>,
  in the order of the file.
\<close>

theorem PopulateLearnMoreUI_filters:
  assumes "content JSONpath = Parsed records message"
  shows "fst (PopulateLearnMoreUI h content JSONpath CurrentActorIndex NarrativeSounds Images p) =
           \<lparr>LearnMoreData =
              map (LearnMoreNarration_of h NarrativeSounds Images)
                (filter (\<lambda>d. CorrespondingCPIndex d = CurrentActorIndex) records)\<rparr>"
  using assms
  by (simp add: PopulateLearnMoreUI_def ReadStructFromJsonFile_def PopulateLearnMoreUI_loop_eq)

text \<open>
  Four records with the indices 0, 1, 1, 2 and the current index 1: the second and the
  third record, in that order.
\<close>

theorem PopulateLearnMoreUI_filters_witness:
  "four_panels ''learnmore.json'' =
     Parsed [panel ''first'' 0, panel ''second'' 1, panel ''third'' 1, panel ''fourth'' 2] ''read'' \<and>
   map m_TitleKey
     (LearnMoreData (fst (PopulateLearnMoreUI same_names four_panels ''learnmore.json'' 1 [] [] fresh))) =
     [''second'', ''third'']"
proof -
  have f: "four_panels ''learnmore.json'' =
     Parsed [panel ''first'' 0, panel ''second'' 1, panel ''third'' 1, panel ''fourth'' 2] ''read''"
    by (simp add: four_panels_def)
  show ?thesis
    using f PopulateLearnMoreUI_filters [of four_panels "''learnmore.json''" _ _ same_names 1 "[]" "[]" fresh]
    by (simp add: panel_def LearnMoreNarration_of_def)
qed

section \<open>Resolving names\<close>

lemma ScanNames_dup:
  "n \<in> set names1 \<Longrightarrow>
   ScanNames GetName (names1 @ n # names2) pool acc = ScanNames GetName (names1 @ names2) pool acc"
proof -
  assume n: "n \<in> set names1"
  let ?f = "\<lambda>n. filter (Matches GetName n) pool"
  let ?before = "AppendUnique acc (concat (map ?f names1))"
  have "set (?f n) \<subseteq> set ?before"
    using n by (auto simp: AppendUnique_set)
  then have "AppendUnique ?before (?f n) = ?before"
    by (rule AppendUnique_absorb)
  then show ?thesis
    by (simp add: ScanNames_AppendUnique AppendUnique_append)
qed

lemma ScanNames_no_match:
  "filter (Matches GetName n) pool = [] \<Longrightarrow>
   ScanNames GetName (names1 @ n # names2) pool acc = ScanNames GetName (names1 @ names2) pool acc"
  by (simp add: ScanNames_AppendUnique)

text \<open>
  C6 (as amended). \<open>GetSoundByName\<close> and \<open>GetImageByName\<close> go through the requested names in
  order and append, for each, every non-null pool asset whose name matches and which is
  not in the result yet, in pool order. Hence the result has no duplicates; a name
  requested twice in a row, or once more anywhere later in the list, changes nothing
  (\<open>[A, A, B]\<close> resolves as \<open>[A, B]\<close>); a name without a match contributes nothing; and
  the result holds every pool asset that matches some requested name: a name with
  several matches contributes all of them, not only the first.
\<close>

theorem name_resolution:
  "GetSoundByName h names pool =
     AppendUnique [] (concat (map (\<lambda>n. filter (Matches (SoundName h) n) pool) names)) \<and>
   GetImageByName h names pool =
     AppendUnique [] (concat (map (\<lambda>n. filter (Matches (ImageName h) n) pool) names)) \<and>
   distinct (GetSoundByName h names pool) \<and>
   distinct (GetImageByName h names pool) \<and>
   GetSoundByName h (n # n # names) pool = GetSoundByName h (n # names) pool \<and>
   GetImageByName h (n # n # names) pool = GetImageByName h (n # names) pool \<and>
   (n \<in> set names \<longrightarrow>
      GetSoundByName h (names @ n # names') pool = GetSoundByName h (names @ names') pool \<and>
      GetImageByName h (names @ n # names') pool = GetImageByName h (names @ names') pool) \<and>
   (filter (Matches (SoundName h) n) pool = [] \<longrightarrow>
      GetSoundByName h (names @ n # names') pool = GetSoundByName h (names @ names') pool) \<and>
   (filter (Matches (ImageName h) n) pool = [] \<longrightarrow>
      GetImageByName h (names @ n # names') pool = GetImageByName h (names @ names') pool) \<and>
   set (GetSoundByName h names pool) =
     {s \<in> set pool. \<exists>n \<in> set names. Matches (SoundName h) n s} \<and>
   set (GetImageByName h names pool) =
     {s \<in> set pool. \<exists>n \<in> set names. Matches (ImageName h) n s}"
  unfolding GetSoundByName_def GetImageByName_def
  by (intro conjI impI ScanNames_AppendUnique ScanNames_distinct ScanNames_twice
      ScanNames_dup ScanNames_no_match)
     (simp_all add: ScanNames_set)

text \<open>
  The theorem at a pool that holds the sound 1 twice and a null, for a requested name
  that is repeated and for one without a match.
\<close>

theorem name_resolution_witness:
  "''A'' \<in> set [''A''] \<and>
   GetSoundByName same_names ([''A''] @ ''A'' # [''B'']) [Some 1, None, Some 1] = [Some 1] \<and>
   GetSoundByName same_names ([''A''] @ [''B'']) [Some 1, None, Some 1] = [Some 1] \<and>
   filter (Matches (ImageName same_names) ''B'') [Some 1, None, Some 1] = [] \<and>
   GetImageByName same_names ([''A''] @ ''B'' # []) [Some 1, None, Some 1] =
     GetImageByName same_names ([''A''] @ []) [Some 1, None, Some 1]"
proof -
  have l: "map ToLower ''A'' = ''a''" "map ToLower ''B'' = ''b''"
    by (simp_all add: ToLower_def)
  have m: "Matches (SoundName same_names) ''A'' (Some 1)" "\<not> Matches (SoundName same_names) ''B'' (Some 1)"
    "\<not> Matches (ImageName same_names) ''B'' (Some 1)"
    unfolding Matches_def same_names_def Stricmp_eq_def by (simp_all add: l [simplified])
  have e: "filter (Matches (ImageName same_names) ''B'') [Some 1, None, Some 1] = []"
    using m by (simp add: Matches_def)
  have v: "GetSoundByName same_names ([''A''] @ [''B'']) [Some 1, None, Some 1] = [Some 1]"
    using m by (simp add: GetSoundByName_def ScanNames_AppendUnique Matches_def)
  show ?thesis
    using name_resolution [of same_names "[''A'']" "[Some 1, None, Some 1]" "''A''" "[''B'']"]
      name_resolution [of same_names "[''A'']" "[Some 1, None, Some 1]" "''B''" "[]"] e v
    by simp
qed

text \<open>
  Two distinct assets of the pool are both called \<open>A\<close>: requesting \<open>A\<close> yields both, not
  only the first one met.
\<close>

theorem name_resolution_first_only_counterexample:
  "Matches (SoundName same_names) ''A'' (Some 1) \<and>
   Matches (SoundName same_names) ''A'' (Some 2) \<and>
   GetSoundByName same_names [''A''] [Some 1, Some 2] = [Some 1, Some 2] \<and>
   GetImageByName same_names [''A''] [Some 1, Some 2] = [Some 1, Some 2]"
  by (simp add: Matches_def same_names_def Stricmp_eq_def GetSoundByName_def GetImageByName_def)

section \<open>Resolving actors\<close>

text \<open>
  C7 (as amended). When every non-null candidate has a first tag, \<open>GetActorByName\<close>
  returns the first candidate that is not null and whose first tag equals
  \<open>FName(ActorName)\<close>, with the flag set and the message \<open>Actor Found\<close>; when there is no
  such candidate it returns null, the flag cleared and the message \<open>Actor Not Found\<close>.
  The tags are compared as \<open>FName\<close>s, which ignores the case of letters.
\<close>

theorem GetActorByName_first_match:
  assumes "Tagged h CPActors"
  shows "(\<exists>i < length CPActors.
            TagMatches h ActorName (CPActors ! i) \<and>
            (\<forall>j < i. \<not> TagMatches h ActorName (CPActors ! j)) \<and>
            GetActorByName h ActorName CPActors = Inr (CPActors ! i, True, ''Actor Found'')) \<or>
         ((\<forall>cp \<in> set CPActors. \<not> TagMatches h ActorName cp) \<and>
          GetActorByName h ActorName CPActors = Inr (None, False, ''Actor Not Found''))"
proof (cases "find (TagMatches h ActorName) CPActors")
  case None
  then have "\<forall>cp \<in> set CPActors. \<not> TagMatches h ActorName cp"
    by (simp add: find_None_iff)
  moreover have "GetActorByName h ActorName CPActors = Inr (None, False, ''Actor Not Found'')"
    using assms None by (simp add: GetActorByName_find)
  ultimately show ?thesis by blast
next
  case (Some cp)
  then obtain i where "i < length CPActors" "TagMatches h ActorName (CPActors ! i)"
    "cp = CPActors ! i" "\<forall>j < i. \<not> TagMatches h ActorName (CPActors ! j)"
    unfolding find_Some_iff by blast
  with Some assms show ?thesis
    by (auto simp: GetActorByName_find)
qed

text \<open>The theorem at a candidate list that starts with a null.\<close>

theorem GetActorByName_first_match_witness:
  "Tagged same_names [None, Some 1, Some 2] \<and>
   TagMatches same_names ''cp_1'' (Some 1) \<and>
   GetActorByName same_names ''cp_1'' [None, Some 1, Some 2] = Inr (Some 1, True, ''Actor Found'')"
proof -
  have t: "Tagged same_names [None, Some 1, Some 2]"
    by (simp add: Tagged_def same_names_def)
  have l: "FName ''cp_1'' = FName ''CP_1''"
    by (simp add: FName_def ToLower_def)
  have m: "TagMatches same_names ''cp_1'' (Some 1)" "\<not> TagMatches same_names ''cp_1'' None"
    by (simp_all add: TagMatches_def same_names_def l)
  have "GetActorByName same_names ''cp_1'' [None, Some 1, Some 2] = Inr (Some 1, True, ''Actor Found'')"
    using GetActorByName_first_match [OF t, of "''cp_1''"] m
    by (auto simp: less_Suc_eq_0_disj nth_Cons' split: if_splits)
  with t m show ?thesis by simp
qed

text \<open>An actor tagged \<open>CP_1\<close> is found by a lookup for \<open>cp_1\<close>.\<close>

theorem GetActorByName_case_counterexample:
  "Tags same_names 1 = [FName ''CP_1''] \<and> ''CP_1'' \<noteq> ''cp_1'' \<and>
   GetActorByName same_names ''cp_1'' [Some 1] = Inr (Some 1, True, ''Actor Found'')"
  by (simp add: same_names_def FName_def ToLower_def)

section \<open>Checkpoints\<close>

lemma LoadCheckpointsData_eq:
  assumes "Tagged h CPActors"
  shows "LoadCheckpointsData h content path NarrativeSounds CPActors p =
     Inr (\<lparr>ActorsToFollow =
              map (\<lambda>d. FirstMatch h (CheckpointName d) CPActors) (CheckpointRecords content path p),
            ActorFrameMap =
              map_of (rev (map (\<lambda>d. (FirstMatch h (CheckpointName d) CPActors,
                                       CheckpointFrameNumber d)) (CheckpointRecords content path p))),
            ActorKeyMap =
              map_of (rev (map (\<lambda>d. (FirstMatch h (CheckpointName d) CPActors,
                                       NarrationKeys_of h NarrativeSounds d))
                                (CheckpointRecords content path p)))\<rparr>,
          foldl (ReportUnresolved h CPActors)
            (p\<lparr>DataStructure := Some (CheckpointRecords content path p)\<rparr>)
            (CheckpointRecords content path p))"
proof (cases "DataStructure p")
  case None
  then show ?thesis
    by (simp add: LoadCheckpointsData_def CheckpointRecords_def
        LoadCheckpointsData_loop_eq [OF assms])
next
  case (Some kept)
  then have same: "p\<lparr>DataStructure := Some kept\<rparr> = p" by simp
  from Some show ?thesis
    by (simp add: LoadCheckpointsData_def CheckpointRecords_def
        LoadCheckpointsData_loop_eq [OF assms] same)
qed

text \<open>
  C8 (as amended). When every non-null candidate actor has a first tag,
  \<open>LoadCheckpointsData\<close> returns, and \<open>ActorsToFollow\<close> has exactly one entry per record
  the call goes through, in the order of the records: the actor the record's name
  resolves to, or null when there is none. On the call that decodes the file, the first
  of the process, these are the records of the file; on every later call they are the
  records the static has kept from that first call, whatever file the path names.
\<close>

theorem ActorsToFollow_one_per_record:
  assumes "Tagged h CPActors"
  shows "\<exists>gameData p'.
           LoadCheckpointsData h content path NarrativeSounds CPActors p = Inr (gameData, p') \<and>
           length (ActorsToFollow gameData) = length (CheckpointRecords content path p) \<and>
           ActorsToFollow gameData =
             map (\<lambda>d. FirstMatch h (CheckpointName d) CPActors) (CheckpointRecords content path p) \<and>
           (DataStructure p = None \<and> content path = Parsed records message \<longrightarrow>
              length (ActorsToFollow gameData) = length records \<and>
              (\<forall>i < length records.
                 ActorsToFollow gameData ! i = FirstMatch h (CheckpointName (records ! i)) CPActors))"
proof -
  have "DataStructure p = None \<and> content path = Parsed records message \<longrightarrow>
          CheckpointRecords content path p = records"
    by (simp add: CheckpointRecords_def ReadStructFromJsonFile_def)
  then show ?thesis
    by (auto simp: LoadCheckpointsData_eq [OF assms])
qed

lemma FName_examples:
  "FName ''CP_7'' \<noteq> FName ''CP_1''" "FName ''CP_8'' \<noteq> FName ''CP_1''"
  by (simp_all add: FName_def ToLower_def)

lemma FirstMatch_examples:
  "FirstMatch same_names ''CP_7'' [Some 4] = None"
  "FirstMatch same_names ''CP_1'' [Some 4] = Some 4"
  "FirstMatch same_names ''CP_8'' [Some 4] = None"
  using FName_examples
  by (auto simp: FirstMatch_def TagMatches_def same_names_def)

text \<open>
  Three records of which only the second resolves: three entries, the first and the
  third null.
\<close>

theorem ActorsToFollow_one_per_record_witness:
  "Tagged same_names [Some 4] \<and> DataStructure fresh = None \<and>
   three_checkpoints ''tour.json'' =
     Parsed [checkpoint ''CP_7'' 10, checkpoint ''CP_1'' 20, checkpoint ''CP_8'' 30] ''read'' \<and>
   followed (LoadCheckpointsData same_names three_checkpoints ''tour.json'' [] [Some 4] fresh) =
     Inr [None, Some 4, None]"
proof -
  have t: "Tagged same_names [Some 4]"
    by (simp add: Tagged_def same_names_def)
  have f: "DataStructure fresh = None"
    by (simp add: fresh_def)
  have c: "three_checkpoints ''tour.json'' =
     Parsed [checkpoint ''CP_7'' 10, checkpoint ''CP_1'' 20, checkpoint ''CP_8'' 30] ''read''"
    by (simp add: three_checkpoints_def)
  have n: "CheckpointName (checkpoint name frame) = name" for name frame
    by (simp add: checkpoint_def)
  have r: "CheckpointRecords three_checkpoints ''tour.json'' fresh =
     [checkpoint ''CP_7'' 10, checkpoint ''CP_1'' 20, checkpoint ''CP_8'' 30]"
    by (simp add: CheckpointRecords_def f c ReadStructFromJsonFile_def)
  from ActorsToFollow_one_per_record [OF t, of three_checkpoints "''tour.json''" "[]" fresh]
  obtain gameData p' where
    "LoadCheckpointsData same_names three_checkpoints ''tour.json'' [] [Some 4] fresh =
       Inr (gameData, p')"
    "ActorsToFollow gameData =
       map (\<lambda>d. FirstMatch same_names (CheckpointName d) [Some 4])
         (CheckpointRecords three_checkpoints ''tour.json'' fresh)"
    by blast
  then have "followed (LoadCheckpointsData same_names three_checkpoints ''tour.json'' [] [Some 4] fresh) =
     Inr [None, Some 4, None]"
    by (simp add: followed_def r n FirstMatch_examples)
  with t f c show ?thesis by simp
qed

text \<open>
  C10. When two or more of the records fail to resolve, \<open>ActorFrameMap\<close> and \<open>ActorKeyMap\<close>
  hold under the null key the frame number and the bundle of the last such record, both
  maps have fewer entries than there are records, and \<open>ActorsToFollow\<close> still has one
  entry per record.
\<close>

theorem unresolved_records_share_null_key:
  assumes "Tagged h CPActors"
    and "unresolved = filter (\<lambda>d. FirstMatch h (CheckpointName d) CPActors = None)
                        (CheckpointRecords content path p)"
    and "2 \<le> length unresolved"
  shows "\<exists>gameData p'.
           LoadCheckpointsData h content path NarrativeSounds CPActors p = Inr (gameData, p') \<and>
           ActorFrameMap gameData None = Some (CheckpointFrameNumber (last unresolved)) \<and>
           ActorKeyMap gameData None = Some (NarrationKeys_of h NarrativeSounds (last unresolved)) \<and>
           card (dom (ActorFrameMap gameData)) < length (CheckpointRecords content path p) \<and>
           card (dom (ActorKeyMap gameData)) < length (CheckpointRecords content path p) \<and>
           length (ActorsToFollow gameData) = length (CheckpointRecords content path p)"
proof -
  let ?ds = "CheckpointRecords content path p"
  let ?key = "\<lambda>d. FirstMatch h (CheckpointName d) CPActors"
  obtain u us where u: "unresolved = u # us"
    using assms(3) by (cases unresolved) auto
  have twice: "2 \<le> length (filter (\<lambda>x. x = None) (map ?key ?ds))"
    using assms(2,3) by (simp add: filter_map comp_def)
  have small: "card (?key ` set ?ds) < length ?ds"
    using twice_not_distinct [OF twice] by simp
  have frame: "map_of (rev (map (\<lambda>d. (?key d, CheckpointFrameNumber d)) ?ds)) None =
                 Some (CheckpointFrameNumber (last unresolved))"
    unfolding map_of_rev_last using u assms(2) by (simp split: list.splits)
  have keys: "map_of (rev (map (\<lambda>d. (?key d, NarrationKeys_of h NarrativeSounds d)) ?ds)) None =
                 Some (NarrationKeys_of h NarrativeSounds (last unresolved))"
    unfolding map_of_rev_last using u assms(2) by (simp split: list.splits)
  show ?thesis
    using frame keys small
    by (simp add: LoadCheckpointsData_eq [OF assms(1)] dom_map_of_rev)
qed

text \<open>
  The first and the third of three records fail to resolve: the null key holds the
  frame number of the third.
\<close>

theorem unresolved_records_share_null_key_witness:
  "Tagged same_names [Some 4] \<and>
   filter (\<lambda>d. FirstMatch same_names (CheckpointName d) [Some 4] = None)
     (CheckpointRecords three_checkpoints ''tour.json'' fresh) =
     [checkpoint ''CP_7'' 10, checkpoint ''CP_8'' 30] \<and>
   null_frame (LoadCheckpointsData same_names three_checkpoints ''tour.json'' [] [Some 4] fresh) =
     Inr (Some 30) \<and>
   followed (LoadCheckpointsData same_names three_checkpoints ''tour.json'' [] [Some 4] fresh) =
     Inr [None, Some 4, None]"
proof -
  have t: "Tagged same_names [Some 4]"
    by (simp add: Tagged_def same_names_def)
  have n: "CheckpointName (checkpoint name frame) = name"
    "CheckpointFrameNumber (checkpoint name frame) = frame" for name frame
    by (simp_all add: checkpoint_def)
  have r: "CheckpointRecords three_checkpoints ''tour.json'' fresh =
     [checkpoint ''CP_7'' 10, checkpoint ''CP_1'' 20, checkpoint ''CP_8'' 30]"
    by (simp add: CheckpointRecords_def fresh_def three_checkpoints_def ReadStructFromJsonFile_def)
  have u: "[checkpoint ''CP_7'' 10, checkpoint ''CP_8'' 30] =
     filter (\<lambda>d. FirstMatch same_names (CheckpointName d) [Some 4] = None)
       (CheckpointRecords three_checkpoints ''tour.json'' fresh)"
    by (simp add: r n FirstMatch_examples)
  have two: "2 \<le> length [checkpoint ''CP_7'' 10, checkpoint ''CP_8'' 30]"
    by simp
  from unresolved_records_share_null_key [OF t u two, of "[]"]
  obtain gameData p' where
    "LoadCheckpointsData same_names three_checkpoints ''tour.json'' [] [Some 4] fresh =
       Inr (gameData, p')"
    "ActorFrameMap gameData None = Some 30"
    by (auto simp: n)
  moreover have "followed (LoadCheckpointsData same_names three_checkpoints ''tour.json'' [] [Some 4] fresh) =
     Inr [None, Some 4, None]"
    by (simp add: followed_def LoadCheckpointsData_eq [OF t] r n FirstMatch_examples)
  ultimately show ?thesis
    using t u by (simp add: null_frame_def)
qed

section \<open>The quiz\<close>

lemma PopulateQuizUI_in_range:
  assumes "0 \<le> CurrentQuestionIndex"
    and "nat CurrentQuestionIndex < length (m_Questions QuizQuestions)"
    and "options = Options (QuestionOptions (m_Questions QuizQuestions ! nat CurrentQuestionIndex))"
  shows "PopulateQuizUI SlackReserve cpDefault h NarrativeSounds QuizQuestions CurrentQuestionIndex =
     (case PopulateQuizUI_loop h NarrativeSounds options (SlackReserve (length options)) 0
             (initial_narration cpDefault, Map.empty) of
        Inl e \<Rightarrow> Inl e
      | Inr (narration, narrationMap) \<Rightarrow> Inr \<lparr>LearnMoreKeyMap = narrationMap\<rparr>)"
  using assms by (simp add: PopulateQuizUI_def initial_narration_def Let_def)

lemma PopulateQuizUI_returns:
  assumes "0 \<le> CurrentQuestionIndex"
    and "nat CurrentQuestionIndex < length (m_Questions QuizQuestions)"
    and "options = Options (QuestionOptions (m_Questions QuizQuestions ! nat CurrentQuestionIndex))"
    and "SlackReserve (length options) \<le> length options"
  shows "PopulateQuizUI SlackReserve cpDefault h NarrativeSounds QuizQuestions CurrentQuestionIndex =
     Inr \<lparr>LearnMoreKeyMap =
            (\<lambda>j. if j < SlackReserve (length options)
                  then Some (QuizEntry h NarrativeSounds options (initial_narration cpDefault) 0 j)
                  else None)\<rparr>"
proof -
  from PopulateQuizUI_loop_returns
    [where optionsMax = "SlackReserve (length options)", OF assms(4),
     of h NarrativeSounds 0 "initial_narration cpDefault" Map.empty]
  obtain n' where
    "PopulateQuizUI_loop h NarrativeSounds options (SlackReserve (length options)) 0
       (initial_narration cpDefault, Map.empty) =
     Inr (n', \<lambda>j. if j < SlackReserve (length options)
                  then Some (QuizEntry h NarrativeSounds options (initial_narration cpDefault) 0 j)
                  else None)"
    by auto
  then show ?thesis
    by (simp add: PopulateQuizUI_in_range [OF assms(1-3)])
qed

text \<open>
  C4. For a question index in range, the positions \<open>PopulateQuizUI\<close> goes through are
  bounded by \<open>options.Max()\<close>, not by the number of options: when a map is returned its
  keys are exactly the positions below \<open>Max()\<close>, and when \<open>Max()\<close> exceeds the number of
  options the loop goes on past the last option and the read \<open>options[i]\<close> fails the range
  check.
\<close>

theorem PopulateQuizUI_bound_is_Max:
  assumes "0 \<le> CurrentQuestionIndex"
    and "nat CurrentQuestionIndex < length (m_Questions QuizQuestions)"
    and "options = Options (QuestionOptions (m_Questions QuizQuestions ! nat CurrentQuestionIndex))"
  shows "(SlackReserve (length options) \<le> length options \<longrightarrow>
            tile_positions
              (PopulateQuizUI SlackReserve cpDefault h NarrativeSounds QuizQuestions CurrentQuestionIndex) =
              Inr {0..<SlackReserve (length options)}) \<and>
         (length options < SlackReserve (length options) \<longrightarrow>
            PopulateQuizUI SlackReserve cpDefault h NarrativeSounds QuizQuestions CurrentQuestionIndex =
              Inl RangeCheck)"
proof (intro conjI impI)
  assume "SlackReserve (length options) \<le> length options"
  then show "tile_positions
      (PopulateQuizUI SlackReserve cpDefault h NarrativeSounds QuizQuestions CurrentQuestionIndex) =
      Inr {0..<SlackReserve (length options)}"
    by (auto simp: PopulateQuizUI_returns [where SlackReserve = SlackReserve, OF assms] tile_positions_def dom_def)
next
  assume "length options < SlackReserve (length options)"
  then show "PopulateQuizUI SlackReserve cpDefault h NarrativeSounds QuizQuestions CurrentQuestionIndex =
      Inl RangeCheck"
    by (simp add: PopulateQuizUI_in_range [OF assms] PopulateQuizUI_loop_fails)
qed

lemma two_choices_options:
  "Options (QuestionOptions (m_Questions two_choices ! nat 0)) =
     [choice ''yes'' ''it is so'', choice ''no'' ''it is not so'']"
  "nat 0 < length (m_Questions two_choices)"
  by (simp_all add: two_choices_def)

text \<open>
  Two options: with an allocation of exactly two the keys are 0 and 1; with an
  allocation rounded up to four the call fails.
\<close>

theorem PopulateQuizUI_bound_is_Max_witness:
  "(0::int) \<le> 0 \<and> nat 0 < length (m_Questions two_choices) \<and>
   exact_fit (length [choice ''yes'' ''it is so'', choice ''no'' ''it is not so'']) = 2 \<and>
   tile_positions (PopulateQuizUI exact_fit 0 same_names [] two_choices 0) = Inr {0..<2} \<and>
   rounded_up (length [choice ''yes'' ''it is so'', choice ''no'' ''it is not so'']) = 4 \<and>
   PopulateQuizUI rounded_up 0 same_names [] two_choices 0 = Inl RangeCheck"
proof -
  have z: "(0::int) \<le> 0" by simp
  have e: "exact_fit (length [choice ''yes'' ''it is so'', choice ''no'' ''it is not so'']) = 2"
    by (simp add: exact_fit_def)
  have r: "rounded_up (length [choice ''yes'' ''it is so'', choice ''no'' ''it is not so'']) = 4"
    by (simp add: rounded_up_def)
  show ?thesis
    using PopulateQuizUI_bound_is_Max
        [where SlackReserve = exact_fit and cpDefault = 0 and h = same_names and NarrativeSounds = "[]",
         OF z two_choices_options(2) two_choices_options(1) [symmetric]]
      PopulateQuizUI_bound_is_Max
        [where SlackReserve = rounded_up and cpDefault = 0 and h = same_names and NarrativeSounds = "[]",
         OF z two_choices_options(2) two_choices_options(1) [symmetric]]
      e r two_choices_options(2)
    by simp
qed

text \<open>
  C3, what the code does. For a question index in range and an allocation that does not
  exceed the number of options, the bundle at position \<open>i\<close> has the name of option \<open>i\<close>
  as its title key and the sounds resolved from the two sound names of option \<open>i\<close>; its
  caption list holds the descriptions of the options 0 to \<open>i\<close>, not only that of option
  \<open>i\<close>, because \<open>narration\<close> is declared outside the loop and \<open>m_Keys.Add\<close> appends to what
  the rounds before have left.
\<close>

theorem PopulateQuizUI_keys_accumulate:
  assumes "0 \<le> CurrentQuestionIndex"
    and "nat CurrentQuestionIndex < length (m_Questions QuizQuestions)"
    and "options = Options (QuestionOptions (m_Questions QuizQuestions ! nat CurrentQuestionIndex))"
    and "SlackReserve (length options) \<le> length options"
    and "i < SlackReserve (length options)"
  shows "\<exists>tilesData narration.
           PopulateQuizUI SlackReserve cpDefault h NarrativeSounds QuizQuestions CurrentQuestionIndex =
             Inr tilesData \<and>
           LearnMoreKeyMap tilesData i = Some narration \<and>
           m_TitleKey narration = OptionName (options ! i) \<and>
           m_Keys narration = map OptionDescription (take (Suc i) options) \<and>
           m_EnglishNarrationSounds narration =
             GetSoundByName h [EnglishNarrationSound (options ! i)] NarrativeSounds \<and>
           m_FrenchNarrationSounds narration =
             GetSoundByName h [FrenchNarrationSound (options ! i)] NarrativeSounds"
  using assms(5)
  by (simp add: PopulateQuizUI_returns [where SlackReserve = SlackReserve, OF assms(1-4)] QuizEntry_def initial_narration_def)

text \<open>Two options: the caption list at position 1 has two elements.\<close>

theorem PopulateQuizUI_keys_accumulate_witness:
  "(0::int) \<le> 0 \<and> nat 0 < length (m_Questions two_choices) \<and>
   (1::nat) < exact_fit (length [choice ''yes'' ''it is so'', choice ''no'' ''it is not so'']) \<and>
   tile_keys 1 (PopulateQuizUI exact_fit 0 same_names [] two_choices 0) =
     Inr (Some [''it is so'', ''it is not so''])"
proof -
  have z: "(0::int) \<le> 0" by simp
  have e: "exact_fit (length [choice ''yes'' ''it is so'', choice ''no'' ''it is not so''])
             \<le> length [choice ''yes'' ''it is so'', choice ''no'' ''it is not so'']"
    "(1::nat) < exact_fit (length [choice ''yes'' ''it is so'', choice ''no'' ''it is not so''])"
    by (simp_all add: exact_fit_def)
  from PopulateQuizUI_keys_accumulate
    [where SlackReserve = exact_fit and cpDefault = 0 and h = same_names and NarrativeSounds = "[]",
     OF z two_choices_options(2) two_choices_options(1) [symmetric] e]
  obtain tilesData narration where
    "PopulateQuizUI exact_fit 0 same_names [] two_choices 0 = Inr tilesData"
    "LearnMoreKeyMap tilesData 1 = Some narration"
    "m_Keys narration = map OptionDescription
       (take (Suc 1) [choice ''yes'' ''it is so'', choice ''no'' ''it is not so''])"
    by blast
  then have "tile_keys 1 (PopulateQuizUI exact_fit 0 same_names [] two_choices 0) =
     Inr (Some [''it is so'', ''it is not so''])"
    by (simp add: tile_keys_def choice_def)
  with e two_choices_options(2) show ?thesis by simp
qed

section \<open>What a call depends on and what it leaves behind\<close>

lemma AddOnScreenDebugMessage_static [simp]:
  "DataStructure (AddOnScreenDebugMessage message p) = DataStructure p"
  by (simp add: AddOnScreenDebugMessage_def split: option.splits)

lemma LoadInstructionsData_loop_result:
  "fst (LoadInstructionsData_loop h NarrativeSounds success message ds (instructionData, p)) =
   fst (LoadInstructionsData_loop h NarrativeSounds success message ds (instructionData, p'))"
  by (induction ds arbitrary: instructionData p p') (simp_all add: Let_def)

lemma LoadInstructionsData_loop_static:
  "DataStructure
     (snd (LoadInstructionsData_loop h NarrativeSounds success message ds (instructionData, p))) =
   DataStructure p"
  by (induction ds arbitrary: instructionData p) (simp_all add: Let_def)

lemma LoadCheckpointsData_loop_result:
  "returned (LoadCheckpointsData_loop h NarrativeSounds CPActors ds (gameData, p)) =
   returned (LoadCheckpointsData_loop h NarrativeSounds CPActors ds (gameData, p'))"
proof (induction ds arbitrary: gameData p p')
  case Nil
  show ?case by (simp add: returned_def)
next
  case (Cons d ds)
  show ?case
  proof (cases "GetActorByName h (CheckpointName d) CPActors")
    case (Inl e)
    then show ?thesis by (simp add: returned_def)
  next
    case (Inr found)
    obtain actor success message where "found = (actor, success, message)"
      by (cases found) auto
    with Inr show ?thesis
      using Cons.IH by (simp add: Let_def)
  qed
qed

lemma LoadCheckpointsData_loop_static:
  "LoadCheckpointsData_loop h NarrativeSounds CPActors ds (gameData, p) = Inr (gameData', p') \<Longrightarrow>
   DataStructure p' = DataStructure p"
proof (induction ds arbitrary: gameData p)
  case Nil
  then show ?case by simp
next
  case (Cons d ds)
  show ?case
  proof (cases "GetActorByName h (CheckpointName d) CPActors")
    case (Inl e)
    with Cons.prems show ?thesis by simp
  next
    case (Inr found)
    obtain actor success message where f: "found = (actor, success, message)"
      by (cases found) auto
    from Cons.prems Inr f show ?thesis
      by (auto simp: Let_def dest!: Cons.IH split: if_splits)
  qed
qed

text \<open>
  C2 (as amended). What \<open>LoadInstructionsData\<close>, \<open>PopulateLearnMoreUI\<close> and
  \<open>LoadQuizQuestions\<close> return depends on their arguments and on the files only, not on the
  process state, and they leave the static of \<open>LoadCheckpointsData\<close> as it is.
  \<open>LoadCheckpointsData\<close> keeps the structure decoded by its first call in a function-local
  static: what it returns depends on its arguments and on that static; once the static
  is set, neither the path nor the files matter; and after a call that returns, the
  static holds the records that call went through.
\<close>

theorem loaders_and_the_static:
  "fst (LoadInstructionsData h ci path NarrativeSounds p) =
     fst (LoadInstructionsData h ci path NarrativeSounds p') \<and>
   DataStructure (snd (LoadInstructionsData h ci path NarrativeSounds p)) = DataStructure p \<and>
   fst (PopulateLearnMoreUI h cl path CurrentActorIndex NarrativeSounds Images p) =
     fst (PopulateLearnMoreUI h cl path CurrentActorIndex NarrativeSounds Images p') \<and>
   DataStructure (snd (PopulateLearnMoreUI h cl path CurrentActorIndex NarrativeSounds Images p)) =
     DataStructure p \<and>
   fst (LoadQuizQuestions cq ProjectContentDir p) = fst (LoadQuizQuestions cq ProjectContentDir p') \<and>
   DataStructure (snd (LoadQuizQuestions cq ProjectContentDir p)) = DataStructure p \<and>
   (DataStructure p = DataStructure p' \<longrightarrow>
      returned (LoadCheckpointsData h cc path NarrativeSounds CPActors p) =
      returned (LoadCheckpointsData h cc path NarrativeSounds CPActors p')) \<and>
   (DataStructure p = Some kept \<longrightarrow>
      returned (LoadCheckpointsData h cc path NarrativeSounds CPActors p) =
      returned (LoadCheckpointsData h cc' path' NarrativeSounds CPActors p)) \<and>
   (LoadCheckpointsData h cc path NarrativeSounds CPActors p = Inr (gameData, q) \<longrightarrow>
      DataStructure q = Some (CheckpointRecords cc path p))"
proof (intro conjI impI)
  show "fst (LoadInstructionsData h ci path NarrativeSounds p) =
     fst (LoadInstructionsData h ci path NarrativeSounds p')"
    by (simp add: LoadInstructionsData_def LoadInstructionsData_loop_result [of _ _ _ _ _ _ p p']
        split: prod.splits)
  show "DataStructure (snd (LoadInstructionsData h ci path NarrativeSounds p)) = DataStructure p"
    by (simp add: LoadInstructionsData_def LoadInstructionsData_loop_static split: prod.splits)
  show "fst (PopulateLearnMoreUI h cl path CurrentActorIndex NarrativeSounds Images p) =
     fst (PopulateLearnMoreUI h cl path CurrentActorIndex NarrativeSounds Images p')"
    by (simp add: PopulateLearnMoreUI_def split: prod.splits)
  show "DataStructure (snd (PopulateLearnMoreUI h cl path CurrentActorIndex NarrativeSounds Images p)) =
     DataStructure p"
    by (simp add: PopulateLearnMoreUI_def split: prod.splits)
  show "fst (LoadQuizQuestions cq ProjectContentDir p) = fst (LoadQuizQuestions cq ProjectContentDir p')"
    by (simp add: LoadQuizQuestions_def split: prod.splits)
  show "DataStructure (snd (LoadQuizQuestions cq ProjectContentDir p)) = DataStructure p"
    by (simp add: LoadQuizQuestions_def split: prod.splits)
next
  assume "DataStructure p = DataStructure p'"
  then show "returned (LoadCheckpointsData h cc path NarrativeSounds CPActors p) =
      returned (LoadCheckpointsData h cc path NarrativeSounds CPActors p')"
    by (cases "DataStructure p'")
       (simp_all add: LoadCheckpointsData_def
          LoadCheckpointsData_loop_result [of _ _ _ _ _ "p\<lparr>DataStructure := Some kept\<rparr>" "p'\<lparr>DataStructure := Some kept\<rparr>" for kept]
          LoadCheckpointsData_loop_result [of _ _ _ _ _ p p'])
next
  assume "DataStructure p = Some kept"
  then show "returned (LoadCheckpointsData h cc path NarrativeSounds CPActors p) =
      returned (LoadCheckpointsData h cc' path' NarrativeSounds CPActors p)"
    by (simp add: LoadCheckpointsData_def)
next
  assume "LoadCheckpointsData h cc path NarrativeSounds CPActors p = Inr (gameData, q)"
  then show "DataStructure q = Some (CheckpointRecords cc path p)"
    by (cases "DataStructure p")
       (auto simp: LoadCheckpointsData_def CheckpointRecords_def
          dest!: LoadCheckpointsData_loop_static)
qed


lemma three_checkpoints_records:
  "CheckpointRecords three_checkpoints ''tour.json'' fresh =
     [checkpoint ''CP_7'' 10, checkpoint ''CP_1'' 20, checkpoint ''CP_8'' 30]"
  "CheckpointRecords three_checkpoints ''empty.json'' fresh = []"
  "CheckpointRecords three_checkpoints ''empty.json'' muted = []"
  "CheckpointRecords content path visited =
     [checkpoint ''CP_7'' 10, checkpoint ''CP_1'' 20, checkpoint ''CP_8'' 30]"
  by (simp_all add: CheckpointRecords_def fresh_def muted_def visited_def three_checkpoints_def
      ReadStructFromJsonFile_def)

lemma checkpoint_fields:
  "CheckpointName (checkpoint name frame) = name"
  "CheckpointFrameNumber (checkpoint name frame) = frame"
  by (simp_all add: checkpoint_def)

lemma Tagged_same_names: "Tagged same_names CPActors"
  by (simp add: Tagged_def same_names_def split: option.splits)

text \<open>
  The theorem at two processes that agree on the static, at a process whose static is
  set, and at a first call on a file without records.
\<close>

theorem loaders_and_the_static_witness:
  "DataStructure fresh = DataStructure muted \<and>
   returned (LoadCheckpointsData same_names three_checkpoints ''empty.json'' [] [Some 4] fresh) =
     returned (LoadCheckpointsData same_names three_checkpoints ''empty.json'' [] [Some 4] muted) \<and>
   DataStructure visited =
     Some [checkpoint ''CP_7'' 10, checkpoint ''CP_1'' 20, checkpoint ''CP_8'' 30] \<and>
   returned (LoadCheckpointsData same_names three_checkpoints ''tour.json'' [] [Some 4] visited) =
     returned (LoadCheckpointsData same_names no_files ''missing.json'' [] [Some 4] visited) \<and>
   LoadCheckpointsData same_names three_checkpoints ''empty.json'' [] [Some 4] fresh =
     Inr (nothing_loaded, fresh\<lparr>DataStructure := Some []\<rparr>) \<and>
   DataStructure (fresh\<lparr>DataStructure := Some []\<rparr>) =
     Some (CheckpointRecords three_checkpoints ''empty.json'' fresh)"
proof -
  have a: "DataStructure fresh = DataStructure muted"
    by (simp add: fresh_def muted_def)
  have b: "DataStructure visited =
     Some [checkpoint ''CP_7'' 10, checkpoint ''CP_1'' 20, checkpoint ''CP_8'' 30]"
    by (simp add: visited_def)
  have c: "LoadCheckpointsData same_names three_checkpoints ''empty.json'' [] [Some 4] fresh =
     Inr (nothing_loaded, fresh\<lparr>DataStructure := Some []\<rparr>)"
    by (simp add: LoadCheckpointsData_eq [OF Tagged_same_names] three_checkpoints_records
        nothing_loaded_def)
  show ?thesis
    using a b c
      loaders_and_the_static
        [where p = fresh and p' = muted and h = same_names and cc = three_checkpoints
           and path = "''empty.json''" and NarrativeSounds = "[]" and CPActors = "[Some 4]"
           and gameData = nothing_loaded and q = "fresh\<lparr>DataStructure := Some []\<rparr>"]
      loaders_and_the_static
        [where p = visited and h = same_names and cc = three_checkpoints
           and path = "''tour.json''" and NarrativeSounds = "[]" and CPActors = "[Some 4]"
           and kept = "[checkpoint ''CP_7'' 10, checkpoint ''CP_1'' 20, checkpoint ''CP_8'' 30]"
           and cc' = no_files and path' = "''missing.json''"]
    by simp
qed

text \<open>
  The same call, with the same arguments, returns no actor in a fresh process and three
  entries in a process that has loaded \<open>tour.json\<close> before.
\<close>

theorem later_call_ignores_path_counterexample:
  "left_behind (LoadCheckpointsData same_names three_checkpoints ''tour.json'' [] [Some 4] fresh) =
     Inr visited \<and>
   followed (LoadCheckpointsData same_names three_checkpoints ''empty.json'' [] [Some 4] fresh) =
     Inr [] \<and>
   followed (LoadCheckpointsData same_names three_checkpoints ''empty.json'' [] [Some 4] visited) =
     Inr [None, Some 4, None]"
proof -
  have "left_behind (LoadCheckpointsData same_names three_checkpoints ''tour.json'' [] [Some 4] fresh) =
     Inr visited"
    unfolding left_behind_def LoadCheckpointsData_eq [OF Tagged_same_names]
      three_checkpoints_records
    by (simp add: ReportUnresolved_def checkpoint_fields FirstMatch_examples
        AddOnScreenDebugMessage_def fresh_def visited_def)
  moreover have "followed (LoadCheckpointsData same_names three_checkpoints ''empty.json'' [] [Some 4] fresh) =
     Inr []"
    by (simp add: followed_def LoadCheckpointsData_eq [OF Tagged_same_names]
        three_checkpoints_records)
  moreover have "followed (LoadCheckpointsData same_names three_checkpoints ''empty.json'' [] [Some 4] visited) =
     Inr [None, Some 4, None]"
    by (simp add: followed_def LoadCheckpointsData_eq [OF Tagged_same_names]
        three_checkpoints_records checkpoint_fields FirstMatch_examples)
  ultimately show ?thesis by simp
qed

text \<open>
  C8 as first stated fails on a later call: after \<open>tour.json\<close> has been loaded, the call
  on \<open>empty.json\<close>, a file without records, returns three entries.
\<close>

theorem ActorsToFollow_later_call_counterexample:
  "left_behind (LoadCheckpointsData same_names three_checkpoints ''tour.json'' [] [Some 4] fresh) =
     Inr visited \<and>
   three_checkpoints ''empty.json'' = Parsed [] ''read'' \<and>
   followed (LoadCheckpointsData same_names three_checkpoints ''empty.json'' [] [Some 4] visited) =
     Inr [None, Some 4, None] \<and>
   length [None, Some 4, None :: pointer] \<noteq> length ([] :: FCheckpoint list)"
proof -
  have "left_behind (LoadCheckpointsData same_names three_checkpoints ''tour.json'' [] [Some 4] fresh) =
     Inr visited"
    unfolding left_behind_def LoadCheckpointsData_eq [OF Tagged_same_names]
      three_checkpoints_records
    by (simp add: ReportUnresolved_def checkpoint_fields FirstMatch_examples
        AddOnScreenDebugMessage_def fresh_def visited_def)
  moreover have "three_checkpoints ''empty.json'' = Parsed [] ''read''"
    by (simp add: three_checkpoints_def)
  moreover have "followed (LoadCheckpointsData same_names three_checkpoints ''empty.json'' [] [Some 4] visited) =
     Inr [None, Some 4, None]"
    by (simp add: followed_def LoadCheckpointsData_eq [OF Tagged_same_names]
        three_checkpoints_records checkpoint_fields FirstMatch_examples)
  ultimately show ?thesis by simp
qed

section \<open>A file that fails to decode\<close>

text \<open>
  C1, what the code does. When the file fails to decode, every loader returns a result
  without records (for \<open>LoadCheckpointsData\<close>: on the call that initialises the static).
  \<open>LoadQuizQuestions\<close> passes the decoder's message to the screen. The other three leave
  the process as it was, up to the static: \<open>LoadInstructionsData\<close> tests \<open>success\<close> inside
  the loop over the records, which has nothing to go through, \<open>LoadCheckpointsData\<close> reports
  unresolved actors only, and \<open>PopulateLearnMoreUI\<close> never reads \<open>success\<close>.
\<close>

theorem decode_failure:
  "(ci path = ParseFailed message \<longrightarrow>
      LoadInstructionsData h ci path NarrativeSounds p = (\<lparr>InstructionKeyMap = Map.empty\<rparr>, p)) \<and>
   (cl path = ParseFailed message \<longrightarrow>
      PopulateLearnMoreUI h cl path CurrentActorIndex NarrativeSounds Images p =
        (\<lparr>LearnMoreData = []\<rparr>, p)) \<and>
   (cc path = ParseFailed message \<and> DataStructure p = None \<longrightarrow>
      LoadCheckpointsData h cc path NarrativeSounds CPActors p =
        Inr (nothing_loaded, p\<lparr>DataStructure := Some []\<rparr>)) \<and>
   (cq (ProjectContentDir @ ''/JSONFiles/AutomatedTour/quiz.json'') = ParseFailed message \<longrightarrow>
      LoadQuizQuestions cq ProjectContentDir p =
        (\<lparr>m_Questions = []\<rparr>, AddOnScreenDebugMessage message p))"
  by (simp add: LoadInstructionsData_def PopulateLearnMoreUI_def LoadCheckpointsData_def
      LoadQuizQuestions_def ReadStructFromJsonFile_def nothing_loaded_def)

text \<open>
  No file exists: the screen is empty after the instructions, the learn-more panels and
  the checkpoints have been loaded, and shows the decoder's message after the quiz has.
\<close>

theorem decode_failure_witness:
  "no_files ''instructions.json'' = (ParseFailed ''no such file'' :: FInstruction list parse) \<and>
   LoadInstructionsData same_names no_files ''instructions.json'' [] fresh =
     (\<lparr>InstructionKeyMap = Map.empty\<rparr>, fresh) \<and>
   GEngine fresh = Some [] \<and>
   no_files ''learnmore.json'' = (ParseFailed ''no such file'' :: FLearnMore list parse) \<and>
   PopulateLearnMoreUI same_names no_files ''learnmore.json'' 0 [] [] fresh =
     (\<lparr>LearnMoreData = []\<rparr>, fresh) \<and>
   no_files ''checkpoints.json'' = (ParseFailed ''no such file'' :: FCheckpoint list parse) \<and>
   DataStructure fresh = None \<and>
   LoadCheckpointsData same_names no_files ''checkpoints.json'' [] [] fresh =
     Inr (nothing_loaded, fresh\<lparr>DataStructure := Some []\<rparr>) \<and>
   GEngine (fresh\<lparr>DataStructure := Some []\<rparr>) = Some [] \<and>
   no_files (''Content'' @ ''/JSONFiles/AutomatedTour/quiz.json'') =
     (ParseFailed ''no such file'' :: FQuizQuestions parse) \<and>
   GEngine (snd (LoadQuizQuestions no_files ''Content'' fresh)) = Some [''no such file'']"
  using decode_failure
    [where ci = no_files and cl = no_files and cc = no_files and cq = no_files
       and path = "''instructions.json''" and message = "''no such file''" and h = same_names
       and NarrativeSounds = "[]" and p = fresh and Images = "[]" and CurrentActorIndex = 0]
    decode_failure
    [where ci = no_files and cl = no_files and cc = no_files and cq = no_files
       and path = "''learnmore.json''" and message = "''no such file''" and h = same_names
       and NarrativeSounds = "[]" and p = fresh and Images = "[]" and CurrentActorIndex = 0]
    decode_failure
    [where ci = no_files and cl = no_files and cc = no_files and cq = no_files
       and path = "''checkpoints.json''" and message = "''no such file''" and h = same_names
       and NarrativeSounds = "[]" and p = fresh and CPActors = "[]"
       and ProjectContentDir = "''Content''"]
  by (simp add: no_files_def fresh_def AddOnScreenDebugMessage_def)

end
